theory Spec2Isabelle
  imports Complex_Main
begin

section \<open>Go runtime notions used by the server\<close>

text \<open>
  Go strings are byte sequences; they are modelled as \<open>string\<close> (a list of
  characters).  The process environment is a partial map from variable names to values.
\<close>

type_synonym environ = "string \<rightharpoonup> string"

text \<open>A Go \<open>error\<close> is its message.\<close>

datatype error = Error string

fun errorMessage :: "error \<Rightarrow> string" where
  "errorMessage (Error m) = m"

text \<open>\<open>os.Getenv\<close>: the value, or the empty string when the variable is unset.\<close>

definition Getenv :: "environ \<Rightarrow> string \<Rightarrow> string" where
  "Getenv env key = (case env key of None \<Rightarrow> [] | Some v \<Rightarrow> v)"

text \<open>\<open>utils.GetEnv\<close>: \<open>os.LookupEnv\<close> with a fallback for an unset variable.\<close>

definition GetEnv :: "environ \<Rightarrow> string \<Rightarrow> string \<Rightarrow> string" where
  "GetEnv env key fallback = (case env key of Some v \<Rightarrow> v | None \<Rightarrow> fallback)"

text \<open>\<open>strings.HasPrefix s p\<close>.\<close>

definition HasPrefix :: "string \<Rightarrow> string \<Rightarrow> bool" where
  "HasPrefix s p = (take (length p) s = p)"

text \<open>\<open>strings.Split s sep\<close> for a one-byte separator: the pieces between the separators,
  always at least one piece.\<close>

fun Split :: "string \<Rightarrow> char \<Rightarrow> string list" where
  "Split [] sep = [[]]"
| "Split (c # cs) sep =
     (if c = sep then [] # Split cs sep
      else (case Split cs sep of
              [] \<Rightarrow> [[c]]
            | p # ps \<Rightarrow> (c # p) # ps))"

section \<open>Origin gate (pkg/client/middleware.go)\<close>

record CORSConfig =
  AllowedOrigins :: "string list"
  Mode :: string

text \<open>\<open>LoadCORSConfigFromEnv\<close>.  \<open>strings.TrimSpace\<close> is taken as a parameter.\<close>

definition LoadCORSConfigFromEnv :: "(string \<Rightarrow> string) \<Rightarrow> environ \<Rightarrow> CORSConfig" where
  "LoadCORSConfigFromEnv TrimSpace env =
     (let originsStr = Getenv env ''MCP_ALLOWED_ORIGINS'';
          mode0 = Getenv env ''MCP_CORS_MODE'';
          mode = (if mode0 = [] then ''strict'' else mode0);
          origins = (if originsStr \<noteq> [] then map TrimSpace (Split originsStr CHR '','') else [])
      in \<lparr>AllowedOrigins = origins, Mode = mode\<rparr>)"

text \<open>The loop of \<open>isOriginAllowed\<close> over the allowed list.\<close>

fun originInList :: "string \<Rightarrow> string list \<Rightarrow> bool" where
  "originInList origin [] = False"
| "originInList origin (allowed # rest) =
     (if origin = allowed then True else originInList origin rest)"

definition isLocalOrigin :: "string \<Rightarrow> bool" where
  "isLocalOrigin origin =
     (HasPrefix origin ''http://localhost:'' \<or>
      HasPrefix origin ''https://localhost:'' \<or>
      HasPrefix origin ''http://127.0.0.1:'' \<or>
      HasPrefix origin ''https://127.0.0.1:'' \<or>
      HasPrefix origin ''http://[::1]:'' \<or>
      HasPrefix origin ''https://[::1]:'')"

definition isOriginAllowed :: "string \<Rightarrow> string list \<Rightarrow> string \<Rightarrow> bool" where
  "isOriginAllowed origin allowedOrigins mode =
     (if mode = ''disabled'' then True
      else if originInList origin allowedOrigins then True
      else if mode = ''development'' then
        (if isLocalOrigin origin then True else False)
      else False)"

subsection \<open>HTTP requests, response writers and handlers\<close>

text \<open>
  \<open>http.Header\<close> and \<open>url.Values\<close> map a key to its list of values.  A request
  context carries the client session (its ID) when there is one, and the values bound
  with \<open>context.WithValue\<close>.
\<close>

type_synonym header = "string \<rightharpoonup> string list"

record goContext =
  Session :: "string option"
  Values :: "string \<rightharpoonup> string"

record request =
  Method :: string
  Header :: header
  Query :: header
  RemoteAddr :: string
  Context :: goContext

record ResponseWriter =
  wHeader :: header
  wStatus :: "nat option"
  wBody :: string

type_synonym handler = "ResponseWriter \<Rightarrow> request \<Rightarrow> ResponseWriter"

text \<open>\<open>url.Values.Get\<close>: the first value stored under the key, or the empty string.\<close>

definition Values_Get :: "header \<Rightarrow> string \<Rightarrow> string" where
  "Values_Get h key = (case h key of None \<Rightarrow> [] | Some [] \<Rightarrow> [] | Some (v # vs) \<Rightarrow> v)"

text \<open>
  \<open>textproto.CanonicalMIMEHeaderKey\<close>: a key made of header-field bytes only gets an
  upper-case letter first and after every hyphen and lower-case letters elsewhere; any
  other key is returned unchanged.
\<close>

definition inRange :: "char \<Rightarrow> char \<Rightarrow> char \<Rightarrow> bool" where
  "inRange lo hi c = ((of_char lo :: nat) \<le> of_char c \<and> (of_char c :: nat) \<le> of_char hi)"

definition validHeaderFieldByte :: "char \<Rightarrow> bool" where
  "validHeaderFieldByte c =
     (inRange CHR ''a'' CHR ''z'' c \<or> inRange CHR ''A'' CHR ''Z'' c \<or> inRange CHR ''0'' CHR ''9'' c \<or>
      c \<in> set [CHR ''!'', CHR ''#'', CHR ''$'', CHR ''%'', CHR ''&'', CHR 0x27, CHR ''*'',
                 CHR ''+'', CHR ''-'', CHR ''.'', CHR ''^'', CHR ''_'', CHR 0x60, CHR ''|'',
                 CHR ''~''])"

fun canonicalize :: "bool \<Rightarrow> string \<Rightarrow> string" where
  "canonicalize upper [] = []"
| "canonicalize upper (c # cs) =
     (let c' = (if upper \<and> inRange CHR ''a'' CHR ''z'' c
                  then char_of (of_char c - (32::nat))
                else if \<not> upper \<and> inRange CHR ''A'' CHR ''Z'' c
                  then char_of (of_char c + (32::nat))
                else c)
      in c' # canonicalize (c' = CHR ''-'') cs)"

definition CanonicalMIMEHeaderKey :: "string \<Rightarrow> string" where
  "CanonicalMIMEHeaderKey s = (if list_all validHeaderFieldByte s then canonicalize True s else s)"

text \<open>\<open>http.Header.Get\<close>: the first value under the canonical form of the key.\<close>

definition Header_Get :: "header \<Rightarrow> string \<Rightarrow> string" where
  "Header_Get h key = Values_Get h (CanonicalMIMEHeaderKey key)"

definition Header_Set :: "header \<Rightarrow> string \<Rightarrow> string \<Rightarrow> header" where
  "Header_Set h key v = h(CanonicalMIMEHeaderKey key \<mapsto> [v])"

definition Header_Del :: "header \<Rightarrow> string \<Rightarrow> header" where
  "Header_Del h key = h(CanonicalMIMEHeaderKey key := None)"

text \<open>\<open>ResponseWriter.WriteHeader\<close>: the first status written is the one that is sent.\<close>

definition WriteHeader :: "ResponseWriter \<Rightarrow> nat \<Rightarrow> ResponseWriter" where
  "WriteHeader w code = (if wStatus w = None then w\<lparr>wStatus := Some code\<rparr> else w)"

definition Write :: "ResponseWriter \<Rightarrow> string \<Rightarrow> ResponseWriter" where
  "Write w bytes = (let w' = WriteHeader w 200 in w'\<lparr>wBody := wBody w' @ bytes\<rparr>)"

text \<open>\<open>http.Error\<close>: a plain-text reply with the given status and the message on a line.\<close>

definition http_Error :: "ResponseWriter \<Rightarrow> string \<Rightarrow> nat \<Rightarrow> ResponseWriter" where
  "http_Error w msg code =
     (let h = Header_Del (wHeader w) ''Content-Length'';
          h = Header_Set h ''Content-Type'' ''text/plain; charset=utf-8'';
          h = Header_Set h ''X-Content-Type-Options'' ''nosniff'';
          w = WriteHeader (w\<lparr>wHeader := h\<rparr>) code
      in Write w (msg @ [CHR 0x0A]))"

definition StatusOK :: nat where "StatusOK = 200"
definition StatusBadRequest :: nat where "StatusBadRequest = 400"
definition StatusForbidden :: nat where "StatusForbidden = 403"

text \<open>
  From the tests (middleware_test.go): a fresh \<open>httptest.NewRecorder\<close>, a request made by
  \<open>httptest.NewRequest\<close> with no header and no query, \<open>req.Header.Set\<close>, and the mock
  handler that always succeeds.
\<close>

definition NewRecorder :: ResponseWriter where
  "NewRecorder = \<lparr>wHeader = Map.empty, wStatus = None, wBody = []\<rparr>"

definition NewRequest :: "string \<Rightarrow> request" where
  "NewRequest method =
     \<lparr>Method = method, Header = Map.empty, Query = Map.empty, RemoteAddr = [],
      Context = \<lparr>Session = None, Values = Map.empty\<rparr>\<rparr>"

definition setHeader :: "request \<Rightarrow> string \<Rightarrow> string \<Rightarrow> request" where
  "setHeader r key v = r\<lparr>Header := Header_Set (Header r) key v\<rparr>"

definition setQuery :: "request \<Rightarrow> string \<Rightarrow> string \<Rightarrow> request" where
  "setQuery r key v = r\<lparr>Query := (Query r)(key \<mapsto> [v])\<rparr>"

definition mockHandler :: handler where
  "mockHandler w r = Write (WriteHeader w StatusOK) ''success''"

subsection \<open>\<open>securityHandler.ServeHTTP\<close>\<close>

record securityHandler =
  allowedOrigins :: "string list"
  corsMode :: string

text \<open>The four response headers added for an admitted origin.\<close>

definition addCORSHeaders :: "ResponseWriter \<Rightarrow> string \<Rightarrow> ResponseWriter" where
  "addCORSHeaders w origin =
     (let h = Header_Set (wHeader w) ''Access-Control-Max-Age'' ''3600'';
          h = Header_Set h ''Access-Control-Allow-Origin'' origin;
          h = Header_Set h ''Access-Control-Allow-Methods'' ''GET, POST, OPTIONS'';
          h = Header_Set h ''Access-Control-Allow-Headers'' ''Content-Type, Mcp-Session-Id''
      in w\<lparr>wHeader := h\<rparr>)"

text \<open>
  \<open>ServeHTTP\<close>, with the wrapped handler \<open>next\<close> as a parameter.  Log output is not
  part of the model.
\<close>

definition ServeHTTP :: "securityHandler \<Rightarrow> handler \<Rightarrow> handler" where
  "ServeHTTP h next w r =
     (let origin = Header_Get (Header r) ''Origin'' in
      if origin \<noteq> [] \<and> \<not> isOriginAllowed origin (allowedOrigins h) (corsMode h)
        then http_Error w ''Origin not allowed'' StatusForbidden
      else
        (let w = (if origin \<noteq> [] then addCORSHeaders w origin else w) in
         if Method r = ''OPTIONS'' then WriteHeader w StatusOK
         else next w r))"

text \<open>\<open>NewSecurityHandler\<close> applied to the configuration read from the environment.\<close>

definition NewSecurityHandler :: "string list \<Rightarrow> string \<Rightarrow> securityHandler" where
  "NewSecurityHandler origins mode = \<lparr>allowedOrigins = origins, corsMode = mode\<rparr>"

subsection \<open>\<open>TerraformContextMiddleware\<close>\<close>

definition TerraformAddress :: string where "TerraformAddress = ''TFE_ADDRESS''"
definition TerraformToken :: string where "TerraformToken = ''TFE_TOKEN''"
definition TerraformSkipTLSVerify :: string where "TerraformSkipTLSVerify = ''TFE_SKIP_TLS_VERIFY''"
definition tokenInQueryMessage :: string where
  "tokenInQueryMessage = ''Terraform token should not be provided in query parameters for security reasons, use the terraform_token header''"

text \<open>
  The loop over the three configuration names.  \<open>None\<close> is the early return taken when
  the token is found in the query; otherwise the enriched context is returned.
\<close>

fun enrichContext :: "environ \<Rightarrow> request \<Rightarrow> string list \<Rightarrow> goContext \<Rightarrow> goContext option" where
  "enrichContext env r [] ctx = Some ctx"
| "enrichContext env r (header # rest) ctx =
     (let headerValue = Header_Get (Header r) (CanonicalMIMEHeaderKey header) in
      if headerValue = [] \<and> header = TerraformToken \<and> Values_Get (Query r) header \<noteq> []
        then None
      else
        (let headerValue = (if headerValue = [] then Values_Get (Query r) header else headerValue);
             headerValue = (if headerValue = [] then GetEnv env header [] else headerValue)
         in enrichContext env r rest (ctx\<lparr>Values := (Values ctx)(header \<mapsto> headerValue)\<rparr>)))"

definition TerraformContextMiddleware :: "environ \<Rightarrow> handler \<Rightarrow> handler" where
  "TerraformContextMiddleware env next w r =
     (case enrichContext env r [TerraformAddress, TerraformToken, TerraformSkipTLSVerify]
             (Context r) of
        None \<Rightarrow> http_Error w tokenInQueryMessage StatusBadRequest
      | Some ctx \<Rightarrow> next w (r\<lparr>Context := ctx\<rparr>))"

section \<open>Start-up mode (cmd/terraform-mcp-server)\<close>

definition shouldUseStreamableHTTPMode :: "environ \<Rightarrow> bool" where
  "shouldUseStreamableHTTPMode env =
     (let transportMode = Getenv env ''TRANSPORT_MODE'' in
      transportMode = ''http'' \<or> transportMode = ''streamable-http'' \<or>
      Getenv env ''TRANSPORT_PORT'' \<noteq> [] \<or>
      Getenv env ''TRANSPORT_HOST'' \<noteq> [] \<or>
      Getenv env ''MCP_ENDPOINT'' \<noteq> [])"

definition getHTTPPort :: "environ \<Rightarrow> string" where
  "getHTTPPort env = (let port = Getenv env ''TRANSPORT_PORT'' in if port \<noteq> [] then port else ''8080'')"

definition getHTTPHost :: "environ \<Rightarrow> string" where
  "getHTTPHost env = (let host = Getenv env ''TRANSPORT_HOST'' in if host \<noteq> [] then host else ''127.0.0.1'')"

text \<open>\<open>getEndpointPath\<close>; the command's \<open>mcp-endpoint\<close> flag is \<open>None\<close> when there is no
  command (\<open>cmd == nil\<close>) or the flag cannot be read.\<close>

definition getEndpointPath :: "environ \<Rightarrow> string option \<Rightarrow> string" where
  "getEndpointPath env flag =
     (let envPath = Getenv env ''MCP_ENDPOINT'' in
      if envPath \<noteq> [] then envPath
      else (case flag of
              Some path \<Rightarrow> (if path \<noteq> [] then path else ''/mcp'')
            | None \<Rightarrow> ''/mcp''))"

text \<open>
  What the command line selects once cobra has parsed it: the value of the persistent
  \<open>log-file\<close> flag and the root command or one of the three subcommands with its flags,
  or a usage error.
\<close>

record httpFlags =
  transportHost :: string
  transportPort :: string
  mcpEndpoint :: string

datatype command =
    RootCmd
  | StdioCmd
  | StreamableHTTPCmd httpFlags
  | HttpCmdAlias httpFlags

datatype commandLine =
    Parsed string command
  | UsageError string

text \<open>The server that the process runs, or the way it exits: \<open>stdlog.Fatal\<close>, or the
  exit with status 1 after cobra's error.\<close>

datatype launch =
    RunHTTPServer string string string
  | RunStdioServer
  | Fatal string
  | Exit1 string

text \<open>\<open>initLogger\<close>; \<open>os.OpenFile\<close> on the log path is a parameter, \<open>None\<close> when the
  file can be opened.\<close>

definition initLogger :: "(string \<Rightarrow> error option) \<Rightarrow> string \<Rightarrow> error option" where
  "initLogger OpenFile outPath =
     (if outPath = [] then None
      else (case OpenFile outPath of
              Some err \<Rightarrow> Some (Error (''failed to open log file: '' @ errorMessage err))
            | None \<Rightarrow> None))"

text \<open>The \<open>Run\<close> function of each command, once its logger is there.\<close>

fun Run :: "command \<Rightarrow> launch" where
  "Run RootCmd = RunStdioServer"
| "Run StdioCmd = RunStdioServer"
| "Run (StreamableHTTPCmd f) = RunHTTPServer (transportHost f) (transportPort f) (mcpEndpoint f)"
| "Run (HttpCmdAlias f) = RunHTTPServer (transportHost f) (transportPort f) (mcpEndpoint f)"

text \<open>\<open>rootCmd.Execute\<close>: every \<open>Run\<close> function initialises the logger first.\<close>

fun Execute :: "(string \<Rightarrow> error option) \<Rightarrow> commandLine \<Rightarrow> launch" where
  "Execute OpenFile (UsageError e) = Exit1 e"
| "Execute OpenFile (Parsed logFile cmd) =
     (case initLogger OpenFile logFile of
        Some err \<Rightarrow> Fatal (''Failed to initialize logger:'' @ errorMessage err)
      | None \<Rightarrow> Run cmd)"

text \<open>\<open>main\<close>: the environment is looked at first and overrides the command line.  In
  that branch the command line has not been parsed yet, so the log file is the flag's
  default, the empty path.\<close>

definition main :: "(string \<Rightarrow> error option) \<Rightarrow> environ \<Rightarrow> commandLine \<Rightarrow> launch" where
  "main OpenFile env args =
     (if shouldUseStreamableHTTPMode env then
        (let port = getHTTPPort env;
             host = getHTTPHost env;
             endpointPath = getEndpointPath env None
         in case initLogger OpenFile [] of
              Some err \<Rightarrow> Fatal (''Failed to initialize logger:'' @ errorMessage err)
            | None \<Rightarrow> RunHTTPServer host port endpointPath)
      else Execute OpenFile args)"

section \<open>Tool calls\<close>

text \<open>
  A tool handler returns \<open>(*mcp.CallToolResult, error)\<close>;
  \<open>mcp.NewToolResultError\<close> builds a result flagged as an error, \<open>mcp.NewToolResultText\<close>
  an ordinary one.  A handler runs on the process state \<open>'p\<close> it can reach and leaves
  it changed.
\<close>

datatype CallToolResult = NewToolResultText string | NewToolResultError string

record CallToolRequest =
  toolName :: string
  toolArguments :: "string \<rightharpoonup> string"

type_synonym 'p ToolHandlerFunc =
  "goContext \<Rightarrow> CallToolRequest \<Rightarrow> 'p \<Rightarrow> (error + CallToolResult) \<times> 'p"

section \<open>Dynamic tool registry (pkg/tools/dynamic_tool.go)\<close>

text \<open>
  The registry's \<open>mcpServer\<close> is represented by the names of the tools added to the server
  with \<open>AddTool\<close>, in the order of the calls.
\<close>

record DynamicToolRegistry =
  sessionsWithTFE :: "string \<rightharpoonup> bool"
  tfeToolsRegistered :: bool
  mcpServer :: "string list"

definition registerDynamicTools :: "string list \<Rightarrow> DynamicToolRegistry" where
  "registerDynamicTools server =
     \<lparr>sessionsWithTFE = Map.empty, tfeToolsRegistered = False, mcpServer = server\<rparr>"

definition AddTool :: "DynamicToolRegistry \<Rightarrow> string \<Rightarrow> DynamicToolRegistry" where
  "AddTool r name = r\<lparr>mcpServer := mcpServer r @ [name]\<rparr>"

text \<open>The tools that \<open>registerTFETools\<close> creates with \<open>createDynamicTFETool\<close> and adds, in
  its order.\<close>

definition tfeToolNames :: "string list" where
  "tfeToolNames =
     [''list_terraform_orgs'', ''list_terraform_projects'', ''list_workspaces'',
      ''get_workspace_details'', ''create_workspace'', ''update_workspace'',
      ''delete_workspace_safely'', ''search_private_providers'',
      ''get_private_provider_details'', ''search_private_modules'',
      ''get_private_module_details'', ''list_runs'', ''create_run'', ''action_run'',
      ''get_run_details'']"

definition registerTFETools :: "DynamicToolRegistry \<Rightarrow> DynamicToolRegistry" where
  "registerTFETools r =
     (if tfeToolsRegistered r then r
      else (foldl AddTool r tfeToolNames)\<lparr>tfeToolsRegistered := True\<rparr>)"

definition RegisterSessionWithTFE :: "string \<Rightarrow> DynamicToolRegistry \<Rightarrow> DynamicToolRegistry" where
  "RegisterSessionWithTFE sessionID r =
     (let r = r\<lparr>sessionsWithTFE := (sessionsWithTFE r)(sessionID \<mapsto> True)\<rparr> in
      if \<not> tfeToolsRegistered r then registerTFETools r else r)"


text \<open>\<open>r.sessionsWithTFE[sessionID]\<close>: \<open>false\<close> for a missing key.\<close>

definition HasSessionWithTFE :: "DynamicToolRegistry \<Rightarrow> string \<Rightarrow> bool" where
  "HasSessionWithTFE r sessionID =
     (case sessionsWithTFE r sessionID of None \<Rightarrow> False | Some b \<Rightarrow> b)"

text \<open>
  The process state that a credentialed tool can reach: the registry, the map
  \<open>activeTfeClients\<close> from session IDs to backend clients (pkg/client/tfe_client.go), and
  the backend itself.
\<close>

record ('c, 'u) process =
  registry :: DynamicToolRegistry
  activeTfeClients :: "string \<rightharpoonup> 'c"
  backend :: 'u

definition GetTfeClient :: "('c, 'u) process \<Rightarrow> string \<Rightarrow> 'c option" where
  "GetTfeClient p sessionId = activeTfeClients p sessionId"

definition noSessionMessage :: string where
  "noSessionMessage = ''This tool requires an active session with valid Terraform Cloud/Enterprise configuration.''"

definition noClientMessage :: string where
  "noClientMessage = ''This tool is not available. This tool requires a valid Terraform Cloud/Enterprise token and configuration. Please ensure TFE_TOKEN and TFE_ADDRESS environment variables are properly set.''"

text \<open>
  The handler that \<open>createDynamicTFETool\<close> wraps around the original tool's handler.  The
  tool name is used for logging only.
\<close>

definition createDynamicTFETool ::
  "string \<Rightarrow> ('c, 'u) process ToolHandlerFunc \<Rightarrow> ('c, 'u) process ToolHandlerFunc" where
  "createDynamicTFETool name originalHandler ctx req p =
     (case Session ctx of
        None \<Rightarrow> (Inr (NewToolResultError noSessionMessage), p)
      | Some sessionID \<Rightarrow>
          if \<not> HasSessionWithTFE (registry p) sessionID then
            (case GetTfeClient p sessionID of
               None \<Rightarrow> (Inr (NewToolResultError noClientMessage), p)
             | Some tfeClient \<Rightarrow>
                 originalHandler ctx req
                   (p\<lparr>registry := RegisterSessionWithTFE sessionID (registry p)\<rparr>))
          else originalHandler ctx req p)"




section \<open>Rate limiter (pkg/client/ratelimit.go)\<close>

record RateLimitConfig =
  GlobalLimit :: rat
  GlobalBurst :: int
  PerSessionLimit :: rat
  PerSessionBurst :: int

text \<open>
  Modelled from the spec: \<open>rate.Limiter\<close> of golang.org/x/time/rate is not part of the
  repository.  ``Buckets are standard token buckets (continuous refill; burst is the
  maximum stored tokens)''; a token bucket returns immediately, it either allows or
  denies.  \<open>Allow\<close> is given the instant at which it reads the clock.
\<close>

record Limiter =
  lim_limit :: rat
  lim_burst :: int
  lim_tokens :: rat
  lim_last :: rat

text \<open>Modelled from the spec: \<open>rate.NewLimiter\<close>, a bucket that starts full.\<close>

definition NewLimiter :: "rat \<Rightarrow> int \<Rightarrow> Limiter" where
  "NewLimiter r b = \<lparr>lim_limit = r, lim_burst = b, lim_tokens = of_int b, lim_last = 0\<rparr>"

text \<open>Modelled from the spec: \<open>Limiter.Allow\<close>.  The bucket is refilled for the time
  elapsed, up to the burst; one token is taken if one is stored, and the call is denied
  otherwise.\<close>

definition Allow :: "rat \<Rightarrow> Limiter \<Rightarrow> bool \<times> Limiter" where
  "Allow now bucket =
     (let elapsed = max 0 (now - lim_last bucket);
          stored = min (of_int (lim_burst bucket)) (lim_tokens bucket + elapsed * lim_limit bucket)
      in if 1 \<le> stored then (True, bucket\<lparr>lim_tokens := stored - 1, lim_last := now\<rparr>)
         else (False, bucket\<lparr>lim_tokens := stored, lim_last := now\<rparr>))"

text \<open>
  The middleware.  A limiter is shared through a pointer in the source; here the limiter
  that \<open>Allow\<close> has updated is stored back.
\<close>

record RateLimitMiddleware =
  config :: RateLimitConfig
  globalLimiter :: Limiter
  sessionLimiters :: "string \<rightharpoonup> Limiter"

definition NewRateLimitMiddleware :: "RateLimitConfig \<Rightarrow> RateLimitMiddleware" where
  "NewRateLimitMiddleware cfg =
     \<lparr>config = cfg,
      globalLimiter = NewLimiter (GlobalLimit cfg) (GlobalBurst cfg),
      sessionLimiters = Map.empty\<rparr>"

definition getSessionLimiter :: "RateLimitMiddleware \<Rightarrow> string \<Rightarrow> Limiter \<times> RateLimitMiddleware" where
  "getSessionLimiter m sessionID =
     (case sessionLimiters m sessionID of
        Some limiter \<Rightarrow> (limiter, m)
      | None \<Rightarrow>
          (let limiter = NewLimiter (PerSessionLimit (config m)) (PerSessionBurst (config m))
           in (limiter, m\<lparr>sessionLimiters := (sessionLimiters m)(sessionID \<mapsto> limiter)\<rparr>)))"

definition getSessionIDFromContext :: "goContext \<Rightarrow> string" where
  "getSessionIDFromContext ctx = (case Session ctx of Some sessionID \<Rightarrow> sessionID | None \<Rightarrow> [])"

definition globalLimitMessage :: string where
  "globalLimitMessage = ''rate limit exceeded: too many requests globally''"

definition sessionLimitMessage :: string where
  "sessionLimitMessage = ''rate limit exceeded: too many requests from this session''"

text \<open>
  \<open>Middleware\<close> wraps the handler \<open>next\<close>.  \<open>tGlobal\<close> and \<open>tSession\<close> are the instants at which
  the global and the session limiter read the clock.  The state is the middleware's own,
  paired with the state that the handler works on.
\<close>

definition Middleware ::
  "rat \<Rightarrow> rat \<Rightarrow> 'p ToolHandlerFunc \<Rightarrow> goContext \<Rightarrow> CallToolRequest \<Rightarrow>
   RateLimitMiddleware \<times> 'p \<Rightarrow> (error + CallToolResult) \<times> (RateLimitMiddleware \<times> 'p)" where
  "Middleware tGlobal tSession next ctx request s =
     (let m = fst s; p = snd s;
          (globalOK, g) = Allow tGlobal (globalLimiter m);
          m = m\<lparr>globalLimiter := g\<rparr>
      in if \<not> globalOK then (Inl (Error globalLimitMessage), (m, p))
         else
           (let sessionID = getSessionIDFromContext ctx in
            if sessionID \<noteq> [] then
              (let (sessionLimiter, m) = getSessionLimiter m sessionID;
                   (sessionOK, l) = Allow tSession sessionLimiter;
                   m = m\<lparr>sessionLimiters := (sessionLimiters m)(sessionID \<mapsto> l)\<rparr>
               in if \<not> sessionOK then (Inl (Error sessionLimitMessage), (m, p))
                  else (let (res, p') = next ctx request p in (res, (m, p'))))
            else (let (res, p') = next ctx request p in (res, (m, p')))))"

section \<open>Public registry client (pkg/client/registry.go, common.go)\<close>

text \<open>\<open>utils.LogAndReturnError\<close>: \<open>fmt.Errorf("%s, %w", context, err)\<close>.\<close>

definition LogAndReturnError :: "string \<Rightarrow> error \<Rightarrow> error" where
  "LogAndReturnError context err = Error (context @ '', '' @ errorMessage err)"

text \<open>
  An outgoing request, and a response: its status code and status line, its header, and
  what \<open>io.ReadAll\<close> gives on its body, the bytes or a read error.
\<close>

record Request =
  reqMethod :: string
  reqURL :: string
  reqUserAgent :: string

record Response =
  StatusCode :: int
  Status :: string
  RespHeader :: header
  Body :: "error + string"

text \<open>
  \<open>createHTTPClient\<close> builds a retrying client (go-retryablehttp) and returns its
  \<open>StandardClient\<close>.  The client is described by the settings that the function gives
  it: the TLS flag of its transport (which takes its proxy from the environment), the
  timeout of one exchange in seconds, and the number of retries.  Its \<open>Backoff\<close> and
  \<open>CheckRetry\<close> functions are the same for every client and are given below.
\<close>

record httpClient =
  InsecureSkipVerify :: bool
  Timeout :: nat
  RetryMax :: nat

definition createHTTPClient :: "bool \<Rightarrow> httpClient" where
  "createHTTPClient insecureSkipVerify =
     \<lparr>InsecureSkipVerify = insecureSkipVerify, Timeout = 10, RetryMax = 3\<rparr>"

definition StatusTooManyRequests :: int where "StatusTooManyRequests = 429"

text \<open>
  \<open>strconv.ParseInt(s, 10, 64)\<close>: an optional sign and decimal digits, within the range
  of a 64-bit integer; \<open>None\<close> when it returns an error.
\<close>

fun decimalValue :: "int \<Rightarrow> string \<Rightarrow> int" where
  "decimalValue n [] = n"
| "decimalValue n (c # cs) = decimalValue (10 * n + (of_char c - of_char CHR ''0'')) cs"

definition ParseInt :: "string \<Rightarrow> int option" where
  "ParseInt s =
     (case s of
        [] \<Rightarrow> None
      | c # cs \<Rightarrow>
          (let neg = (c = CHR ''-'');
               digits = (if c = CHR ''+'' \<or> c = CHR ''-'' then cs else s)
           in if digits = [] \<or> \<not> list_all (inRange CHR ''0'' CHR ''9'') digits then None
              else
                (let un = decimalValue 0 digits in
                 if \<not> neg \<and> 9223372036854775808 \<le> un then None
                 else if neg \<and> 9223372036854775808 < un then None
                 else Some (if neg then - un else un))))"

text \<open>
  The client's \<open>Backoff\<close>: the time to wait before the next attempt, in nanoseconds.
  \<open>untilUnix sec\<close> stands for \<open>time.Until(time.Unix(sec, 0))\<close>, which reads the clock.
\<close>

definition Backoff :: "(int \<Rightarrow> int) \<Rightarrow> int \<Rightarrow> int \<Rightarrow> nat \<Rightarrow> Response option \<Rightarrow> int" where
  "Backoff untilUnix minWait maxWait attemptNum resp =
     (case resp of
        None \<Rightarrow> 0
      | Some r \<Rightarrow>
          if StatusCode r = StatusTooManyRequests then
            (let resetAfter = Header_Get (RespHeader r) ''x-ratelimit-reset'' in
             case ParseInt resetAfter of
               None \<Rightarrow> 0
             | Some resetAfterInt \<Rightarrow> untilUnix resetAfterInt)
          else 0)"

text \<open>
  The client's \<open>CheckRetry\<close>: only a 429 that carries a non-empty \<open>x-ratelimit-reset\<close>
  header is retried; the error it returns is always \<open>nil\<close>.
\<close>

definition CheckRetry :: "Response option \<Rightarrow> error option \<Rightarrow> bool \<times> error option" where
  "CheckRetry resp err =
     (case resp of
        None \<Rightarrow> (False, None)
      | Some r \<Rightarrow>
          if StatusCode r = StatusTooManyRequests then
            (let resetAfter = Header_Get (RespHeader r) ''x-ratelimit-reset'' in
             (resetAfter \<noteq> [], None))
          else (False, None))"

text \<open>
  What lies outside the repository is a parameter of the model: \<open>url.Parse\<close> (the
  parsed URL printed back, or an error), the check of \<open>http.NewRequest\<close>, the version
  string, \<open>client.Do\<close>, and \<open>json.Unmarshal\<close> into each of the four response types,
  reduced to the fields that the code reads.

  \<open>client_Do\<close> is one call of \<open>client.Do\<close> on the client given: what the call hands back
  to its caller, a response or an error, once the client has followed redirects and has
  retried by its policy.  It is not each answer of the upstream: a 429 with
  \<open>x-ratelimit-reset\<close> is tried again up to \<open>RetryMax\<close> times and then comes back as the
  client's error, and a redirect is followed.  The result may depend on the calls made
  before.
\<close>

record externals =
  url_Parse :: "string \<Rightarrow> error + string"
  http_NewRequest :: "string \<Rightarrow> string \<Rightarrow> error option"
  GetHumanVersion :: string
  client_Do :: "httpClient \<Rightarrow> Request list \<Rightarrow> Request \<Rightarrow> error + Response"
  unmarshalProviderVersionLatest :: "string \<Rightarrow> error + string"
  unmarshalProviderVersionList :: "string \<Rightarrow> error + (string \<times> string) list"
  unmarshalProviderOverview :: "string \<Rightarrow> error + string list"
  unmarshalProviderResourceDetails :: "string \<Rightarrow> error + string"

text \<open>The state of the resource side: the session's HTTP clients (\<open>activeHttpClients\<close>) and
  the requests passed to \<open>client.Do\<close> so far, one entry for each call.\<close>

record world =
  activeHttpClients :: "string \<rightharpoonup> httpClient"
  wire :: "Request list"

definition DefaultPublicRegistryURL :: string where
  "DefaultPublicRegistryURL = ''https://registry.terraform.io''"

definition StatusOKInt :: int where "StatusOKInt = 200"

definition SendRegistryCall ::
  "externals \<Rightarrow> httpClient \<Rightarrow> string \<Rightarrow> string \<Rightarrow> string list \<Rightarrow> world \<Rightarrow> (error + string) \<times> world" where
  "SendRegistryCall x client method uri callOptions w =
     (let ver = (case callOptions of [] \<Rightarrow> ''v1'' | v # vs \<Rightarrow> v) in
      case url_Parse x (DefaultPublicRegistryURL @ ''/'' @ ver @ ''/'' @ uri) of
        Inl err \<Rightarrow> (Inl (Error (''error parsing terraform registry URL: '' @ errorMessage err)), w)
      | Inr url \<Rightarrow>
          (case http_NewRequest x method url of
             Some err \<Rightarrow> (Inl err, w)
           | None \<Rightarrow>
               (let req = \<lparr>reqMethod = method, reqURL = url,
                           reqUserAgent = ''terraform-mcp-server/'' @ GetHumanVersion x\<rparr>;
                    w' = w\<lparr>wire := wire w @ [req]\<rparr>
                in case client_Do x client (wire w) req of
                     Inl err \<Rightarrow> (Inl err, w')
                   | Inr resp \<Rightarrow>
                       if StatusCode resp \<noteq> StatusOKInt then (Inl (Error ''error: 404 Not Found''), w')
                       else (case Body resp of
                               Inl err \<Rightarrow> (Inl err, w')
                             | Inr body \<Rightarrow> (Inr body, w')))))"

definition GetLatestProviderVersion ::
  "externals \<Rightarrow> httpClient \<Rightarrow> string \<Rightarrow> string \<Rightarrow> world \<Rightarrow> (error + string) \<times> world" where
  "GetLatestProviderVersion x httpClient providerNamespace providerName w =
     (let uri = ''providers/'' @ providerNamespace @ ''/'' @ providerName in
      case SendRegistryCall x httpClient ''GET'' uri [''v1''] w of
        (Inl err, w') \<Rightarrow>
          (Inl (LogAndReturnError ''making the latest provider version API request'' err), w')
      | (Inr jsonData, w') \<Rightarrow>
          (case unmarshalProviderVersionLatest x jsonData of
             Inl err \<Rightarrow> (Inl (LogAndReturnError ''unmarshalling provider versions request'' err), w')
           | Inr version \<Rightarrow> (Inr version, w')))"

text \<open>The loop of \<open>GetProviderVersionID\<close> over the included versions, pairs of ID and
  version.\<close>

fun findVersionID :: "(string \<times> string) list \<Rightarrow> string \<Rightarrow> error + string" where
  "findVersionID [] version = Inl (Error (''provider version '' @ version @ '' not found''))"
| "findVersionID ((ident, v) # rest) version =
     (if v = version then Inr ident else findVersionID rest version)"

definition GetProviderVersionID ::
  "externals \<Rightarrow> httpClient \<Rightarrow> string \<Rightarrow> string \<Rightarrow> string \<Rightarrow> world \<Rightarrow> (error + string) \<times> world" where
  "GetProviderVersionID x httpClient namespace name version w =
     (let uri = ''providers/'' @ namespace @ ''/'' @ name @ ''?include=provider-versions'' in
      case SendRegistryCall x httpClient ''GET'' uri [''v2''] w of
        (Inl err, w') \<Rightarrow> (Inl (LogAndReturnError ''making provider version ID request'' err), w')
      | (Inr response, w') \<Rightarrow>
          (case unmarshalProviderVersionList x response of
             Inl err \<Rightarrow> (Inl (LogAndReturnError ''unmarshalling provider version ID request'' err), w')
           | Inr included \<Rightarrow> (findVersionID included version, w')))"

definition GetProviderResourceDocs ::
  "externals \<Rightarrow> httpClient \<Rightarrow> string \<Rightarrow> world \<Rightarrow> (error + string) \<times> world" where
  "GetProviderResourceDocs x httpClient providerDocsID w =
     (let uri = ''provider-docs/'' @ providerDocsID in
      case SendRegistryCall x httpClient ''GET'' uri [''v2''] w of
        (Inl err, w') \<Rightarrow> (Inl (LogAndReturnError ''getting provider resource docs '' err), w')
      | (Inr response, w') \<Rightarrow>
          (case unmarshalProviderResourceDetails x response of
             Inl err \<Rightarrow> (Inl (LogAndReturnError ''unmarshalling provider resource docs'' err), w')
           | Inr content \<Rightarrow> (Inr content, w')))"

text \<open>The loop of \<open>GetProviderOverviewDocs\<close> over the overview pages: the contents are
  appended to one string.\<close>

fun overviewPages ::
  "externals \<Rightarrow> httpClient \<Rightarrow> string list \<Rightarrow> string \<Rightarrow> world \<Rightarrow> (error + string) \<times> world" where
  "overviewPages x httpClient [] resourceContent w = (Inr resourceContent, w)"
| "overviewPages x httpClient (pageID # rest) resourceContent w =
     (case GetProviderResourceDocs x httpClient pageID w of
        (Inl err, w') \<Rightarrow> (Inl (LogAndReturnError ''getting provider resource docs looping'' err), w')
      | (Inr resourceContentNew, w') \<Rightarrow>
          overviewPages x httpClient rest (resourceContent @ resourceContentNew) w')"

definition GetProviderOverviewDocs ::
  "externals \<Rightarrow> httpClient \<Rightarrow> string \<Rightarrow> world \<Rightarrow> (error + string) \<times> world" where
  "GetProviderOverviewDocs x httpClient providerVersionID w =
     (let uri = ''provider-docs?filter[provider-version]='' @ providerVersionID
                  @ ''&filter[category]=overview&filter[slug]=index'' in
      case SendRegistryCall x httpClient ''GET'' uri [''v2''] w of
        (Inl err, w') \<Rightarrow> (Inl (LogAndReturnError ''getting provider docs overview'' err), w')
      | (Inr response, w') \<Rightarrow>
          (case unmarshalProviderOverview x response of
             Inl err \<Rightarrow>
               (Inl (LogAndReturnError ''getting provider docs request unmarshalling'' err), w')
           | Inr pages \<Rightarrow> overviewPages x httpClient pages [] w'))"

subsection \<open>Session HTTP clients\<close>

text \<open>\<open>strconv.ParseBool\<close>; \<open>None\<close> when it returns an error.\<close>

definition ParseBool :: "string \<Rightarrow> bool option" where
  "ParseBool str =
     (if str \<in> set [''1'', ''t'', ''T'', ''TRUE'', ''true'', ''True''] then Some True
      else if str \<in> set [''0'', ''f'', ''F'', ''FALSE'', ''false'', ''False''] then Some False
      else None)"

definition parseTerraformSkipTLSVerify :: "goContext \<Rightarrow> bool" where
  "parseTerraformSkipTLSVerify ctx =
     (case Values ctx TerraformSkipTLSVerify of
        None \<Rightarrow> False
      | Some terraformSkipTLSVerifyStr \<Rightarrow>
          if terraformSkipTLSVerifyStr \<noteq> [] then
            (case ParseBool terraformSkipTLSVerifyStr of
               Some terraformSkipTLSVerify \<Rightarrow> terraformSkipTLSVerify
             | None \<Rightarrow> False)
          else False)"

definition NewHttpClient :: "string \<Rightarrow> bool \<Rightarrow> world \<Rightarrow> httpClient \<times> world" where
  "NewHttpClient sessionId terraformSkipTLSVerify w =
     (let client = createHTTPClient terraformSkipTLSVerify in
      (client, w\<lparr>activeHttpClients := (activeHttpClients w)(sessionId \<mapsto> client)\<rparr>))"

definition GetHttpClient :: "world \<Rightarrow> string \<Rightarrow> httpClient option" where
  "GetHttpClient w sessionId = activeHttpClients w sessionId"

definition CreateHttpClientForSession :: "goContext \<Rightarrow> string \<Rightarrow> world \<Rightarrow> httpClient \<times> world" where
  "CreateHttpClientForSession ctx sessionID w =
     NewHttpClient sessionID (parseTerraformSkipTLSVerify ctx) w"

definition GetHttpClientFromContext :: "goContext \<Rightarrow> world \<Rightarrow> (error + httpClient) \<times> world" where
  "GetHttpClientFromContext ctx w =
     (case Session ctx of
        None \<Rightarrow> (Inl (Error ''no active session''), w)
      | Some sessionID \<Rightarrow>
          (case GetHttpClient w sessionID of
             Some client \<Rightarrow> (Inr client, w)
           | None \<Rightarrow>
               (let (client, w') = CreateHttpClientForSession ctx sessionID w
                in (Inr client, w'))))"

section \<open>Provider URIs and versions (pkg/utils)\<close>

definition ExtractProviderNameAndVersion :: "string \<Rightarrow> error + (string \<times> string \<times> string)" where
  "ExtractProviderNameAndVersion uri =
     (let parts = Split uri CHR ''/'' in
      if length parts < 5 then Inl (Error ''invalid provider URI format'')
      else Inr (parts ! (length parts - 5), parts ! (length parts - 3), parts ! (length parts - 1)))"

text \<open>
  Regular expressions, as far as the version pattern needs them: a class of bytes,
  concatenation, alternation, repetition and capture groups, with \<open>x?\<close> and \<open>x+\<close> derived.
  Matching is decided by taking the derivative of the expression by each byte in turn.
\<close>

datatype regex =
    NoMatch
  | EmptyString
  | Class "char \<Rightarrow> bool"
  | Concat regex regex
  | Alternate regex regex
  | Star regex
  | Capture regex

definition Literal :: "char \<Rightarrow> regex" where
  "Literal c = Class (\<lambda>b. b = c)"

definition Quest :: "regex \<Rightarrow> regex" where
  "Quest r = Alternate r EmptyString"

definition Plus :: "regex \<Rightarrow> regex" where
  "Plus r = Concat r (Star r)"

text \<open>A bracket expression made of ranges, such as \<open>[a-zA-Z0-9]\<close>.\<close>

fun inRanges :: "(char \<times> char) list \<Rightarrow> char \<Rightarrow> bool" where
  "inRanges [] c = False"
| "inRanges ((lo, hi) # rest) c = (inRange lo hi c \<or> inRanges rest c)"

fun nullable :: "regex \<Rightarrow> bool" where
  "nullable NoMatch = False"
| "nullable EmptyString = True"
| "nullable (Class p) = False"
| "nullable (Concat r s) = (nullable r \<and> nullable s)"
| "nullable (Alternate r s) = (nullable r \<or> nullable s)"
| "nullable (Star r) = True"
| "nullable (Capture r) = nullable r"

fun deriv :: "char \<Rightarrow> regex \<Rightarrow> regex" where
  "deriv c NoMatch = NoMatch"
| "deriv c EmptyString = NoMatch"
| "deriv c (Class p) = (if p c then EmptyString else NoMatch)"
| "deriv c (Concat r s) =
     (if nullable r then Alternate (Concat (deriv c r) s) (deriv c s)
      else Concat (deriv c r) s)"
| "deriv c (Alternate r s) = Alternate (deriv c r) (deriv c s)"
| "deriv c (Star r) = Concat (deriv c r) (Star r)"
| "deriv c (Capture r) = Capture (deriv c r)"

fun derivs :: "regex \<Rightarrow> string \<Rightarrow> regex" where
  "derivs r [] = r"
| "derivs r (c # cs) = derivs (deriv c r) cs"

text \<open>\<open>regexp.MatchString\<close> for a pattern of the form \<open>^r$\<close>: the whole string matches \<open>r\<close>.\<close>

definition MatchString :: "regex \<Rightarrow> string \<Rightarrow> bool" where
  "MatchString r s = nullable (derivs r s)"

text \<open>Capture groups do not change what an expression matches; \<open>uncapture\<close> removes them.\<close>

fun uncapture :: "regex \<Rightarrow> regex" where
  "uncapture NoMatch = NoMatch"
| "uncapture EmptyString = EmptyString"
| "uncapture (Class p) = Class p"
| "uncapture (Concat r s) = Concat (uncapture r) (uncapture s)"
| "uncapture (Alternate r s) = Alternate (uncapture r) (uncapture s)"
| "uncapture (Star r) = Star (uncapture r)"
| "uncapture (Capture r) = uncapture r"

text \<open>The pattern of \<open>IsValidProviderVersionFormat\<close>,
  \<^verbatim>\<open>^v?(\d+\.\d+\.\d+(-[a-zA-Z0-9]+)?)$\<close>.\<close>

definition digit :: regex where
  "digit = Class (inRanges [(CHR ''0'', CHR ''9'')])"

definition semverRegex :: regex where
  "semverRegex =
     Concat (Quest (Literal CHR ''v''))
       (Capture
          (Concat (Plus digit) (Concat (Literal CHR ''.'')
          (Concat (Plus digit) (Concat (Literal CHR ''.'')
          (Concat (Plus digit)
            (Quest (Capture
               (Concat (Literal CHR ''-'')
                  (Plus (Class (inRanges [(CHR ''a'', CHR ''z''), (CHR ''A'', CHR ''Z''),
                                          (CHR ''0'', CHR ''9'')]))))))))))))"

definition IsValidProviderVersionFormat :: "string \<Rightarrow> bool" where
  "IsValidProviderVersionFormat version = MatchString semverRegex version"

text \<open>The pattern as the specification documents it,
  \<^verbatim>\<open>^v?\d+\.\d+\.\d+(-[A-Za-z0-9]+)?$\<close>.\<close>

definition documentedSemverPattern :: regex where
  "documentedSemverPattern =
     Concat (Quest (Literal CHR ''v''))
       (Concat (Plus digit) (Concat (Literal CHR ''.'')
       (Concat (Plus digit) (Concat (Literal CHR ''.'')
       (Concat (Plus digit)
         (Quest (Capture
            (Concat (Literal CHR ''-'')
               (Plus (Class (inRanges [(CHR ''A'', CHR ''Z''), (CHR ''a'', CHR ''z''),
                                       (CHR ''0'', CHR ''9'')])))))))))))"

section \<open>Provider resource template (pkg/resources)\<close>

record TextResourceContents =
  MIMEType :: string
  URI :: string
  Text :: string

text \<open>
  The second half of \<open>providerResourceTemplateHelper\<close>: the provider-version ID of the
  version, then the overview documentation of that ID.
\<close>

definition fetchOverviewDocs ::
  "externals \<Rightarrow> httpClient \<Rightarrow> string \<Rightarrow> string \<Rightarrow> string \<Rightarrow> world \<Rightarrow> (error + string) \<times> world" where
  "fetchOverviewDocs x httpClient namespace name version w =
     (case GetProviderVersionID x httpClient namespace name version w of
        (Inl err, w') \<Rightarrow>
          (Inl (LogAndReturnError ''getting provider details for provider-version-id'' err), w')
      | (Inr providerVersionID, w') \<Rightarrow>
          (case GetProviderOverviewDocs x httpClient providerVersionID w' of
             (Inl err, w'') \<Rightarrow>
               (Inl (LogAndReturnError
                       ''getting provider details for docs with provider-version-id'' err), w'')
           | (Inr providerDocs, w'') \<Rightarrow> (Inr providerDocs, w'')))"

definition providerResourceTemplateHelper ::
  "externals \<Rightarrow> httpClient \<Rightarrow> string \<Rightarrow> world \<Rightarrow> (error + string) \<times> world" where
  "providerResourceTemplateHelper x httpClient resourceURI w =
     (case ExtractProviderNameAndVersion resourceURI of
        Inl err \<Rightarrow> (Inl (LogAndReturnError ''extracting provider name and version'' err), w)
      | Inr (namespace, name, version) \<Rightarrow>
          if version = [] \<or> version = ''latest'' \<or> \<not> IsValidProviderVersionFormat version then
            (case GetLatestProviderVersion x httpClient namespace name w of
               (Inl err, w') \<Rightarrow>
                 (Inl (LogAndReturnError
                         (''getting '' @ namespace @ ''/'' @ name
                            @ '' latest provider version for resource template'') err), w')
             | (Inr latest, w') \<Rightarrow> fetchOverviewDocs x httpClient namespace name latest w')
          else fetchOverviewDocs x httpClient namespace name version w)"

text \<open>
  The read handler that \<open>providerResourceTemplate\<close> returns for the template
  \<open>resourceURI\<close>; \<open>requestURI\<close> is \<open>request.Params.URI\<close>.
\<close>

definition providerResourceTemplate ::
  "externals \<Rightarrow> string \<Rightarrow> goContext \<Rightarrow> string \<Rightarrow> world \<Rightarrow>
   (error + TextResourceContents list) \<times> world" where
  "providerResourceTemplate x resourceURI ctx requestURI w =
     (case GetHttpClientFromContext ctx w of
        (Inl err, w') \<Rightarrow>
          (Inl (LogAndReturnError ''getting http client for public Terraform registry'' err), w')
      | (Inr httpClient, w') \<Rightarrow>
          (case providerResourceTemplateHelper x httpClient requestURI w' of
             (Inl err, w'') \<Rightarrow>
               (Inl (LogAndReturnError ''getting provider details for resource template'' err), w'')
           | (Inr providerDocs, w'') \<Rightarrow>
               (Inr [\<lparr>MIMEType = ''text/markdown'', URI = resourceURI, Text = providerDocs\<rparr>],
                w'')))"

text \<open>
  The template that \<open>RegisterResourceTemplates\<close> registers.  \<open>path.Join\<close> cleans the joined
  path, which turns the double slash of \<open>PROVIDER_BASE_PATH\<close>, \<open>registry://providers\<close>, into a single one.
\<close>

definition providerTemplateURI :: string where
  "providerTemplateURI = ''registry:/providers/{namespace}/name/{name}/version/{version}''"

section \<open>An example upstream\<close>

text \<open>
  A registry with one provider, \<open>hashicorp/aws\<close>, whose latest version \<open>5.0.0\<close> has the
  provider-version ID \<open>70800\<close> and two overview documents.  Any other request comes back
  with status 500.  The bodies are kept trivial, and so is their decoding.
\<close>

definition exampleResponse :: "string \<Rightarrow> Response" where
  "exampleResponse url =
     (if url = ''https://registry.terraform.io/v1/providers/hashicorp/aws''
        then \<lparr>StatusCode = 200, Status = ''200 OK'', RespHeader = Map.empty, Body = Inr ''5.0.0''\<rparr>
      else if url = ''https://registry.terraform.io/v2/providers/hashicorp/aws?include=provider-versions''
        then \<lparr>StatusCode = 200, Status = ''200 OK'', RespHeader = Map.empty, Body = Inr ''versions''\<rparr>
      else if url = ''https://registry.terraform.io/v2/provider-docs?filter[provider-version]=70800&filter[category]=overview&filter[slug]=index''
        then \<lparr>StatusCode = 200, Status = ''200 OK'', RespHeader = Map.empty, Body = Inr ''overview''\<rparr>
      else if url = ''https://registry.terraform.io/v2/provider-docs/8862001''
        then \<lparr>StatusCode = 200, Status = ''200 OK'', RespHeader = Map.empty, Body = Inr ''# AWS Provider''\<rparr>
      else if url = ''https://registry.terraform.io/v2/provider-docs/8862002''
        then \<lparr>StatusCode = 200, Status = ''200 OK'', RespHeader = Map.empty, Body = Inr ''# Guides''\<rparr>
      else \<lparr>StatusCode = 500, Status = ''500 Internal Server Error'', RespHeader = Map.empty,
            Body = Inr ''oops''\<rparr>)"

definition exampleRegistry :: externals where
  "exampleRegistry =
     \<lparr>url_Parse = Inr,
      http_NewRequest = (\<lambda>method url. None),
      GetHumanVersion = ''dev'',
      client_Do = (\<lambda>client sent req. Inr (exampleResponse (reqURL req))),
      unmarshalProviderVersionLatest = Inr,
      unmarshalProviderVersionList = (\<lambda>body. Inr [(''60000'', ''4.67.0''), (''70800'', ''5.0.0'')]),
      unmarshalProviderOverview = (\<lambda>body. Inr [''8862001'', ''8862002'']),
      unmarshalProviderResourceDetails = Inr\<rparr>"

definition emptyWorld :: world where
  "emptyWorld = \<lparr>activeHttpClients = Map.empty, wire = []\<rparr>"

section \<open>Properties\<close>

subsection \<open>Canonical header keys\<close>

lemma canon_Origin: "CanonicalMIMEHeaderKey ''Origin'' = ''Origin''"
  by code_simp

lemma canon_Max_Age: "CanonicalMIMEHeaderKey ''Access-Control-Max-Age'' = ''Access-Control-Max-Age''"
  by code_simp

lemma canon_Allow_Origin:
  "CanonicalMIMEHeaderKey ''Access-Control-Allow-Origin'' = ''Access-Control-Allow-Origin''"
  by code_simp

lemma canon_Allow_Methods:
  "CanonicalMIMEHeaderKey ''Access-Control-Allow-Methods'' = ''Access-Control-Allow-Methods''"
  by code_simp

lemma canon_Allow_Headers:
  "CanonicalMIMEHeaderKey ''Access-Control-Allow-Headers'' = ''Access-Control-Allow-Headers''"
  by code_simp

lemma canon_Content_Length: "CanonicalMIMEHeaderKey ''Content-Length'' = ''Content-Length''"
  by code_simp

lemma canon_Content_Type: "CanonicalMIMEHeaderKey ''Content-Type'' = ''Content-Type''"
  by code_simp

lemma canon_Nosniff:
  "CanonicalMIMEHeaderKey ''X-Content-Type-Options'' = ''X-Content-Type-Options''"
  by code_simp

lemma canon_TFE_TOKEN: "CanonicalMIMEHeaderKey ''TFE_TOKEN'' = ''Tfe_token''"
  by code_simp

lemma canon_TFE_ADDRESS: "CanonicalMIMEHeaderKey ''TFE_ADDRESS'' = ''Tfe_address''"
  by code_simp

lemma canon_TFE_SKIP: "CanonicalMIMEHeaderKey ''TFE_SKIP_TLS_VERIFY'' = ''Tfe_skip_tls_verify''"
  by code_simp

lemma canon_Tfe_token: "CanonicalMIMEHeaderKey ''Tfe_token'' = ''Tfe_token''"
  by code_simp

lemma canon_Tfe_address: "CanonicalMIMEHeaderKey ''Tfe_address'' = ''Tfe_address''"
  by code_simp

lemma canon_Tfe_skip: "CanonicalMIMEHeaderKey ''Tfe_skip_tls_verify'' = ''Tfe_skip_tls_verify''"
  by code_simp

lemmas canon_simps =
  canon_Origin canon_Max_Age canon_Allow_Origin canon_Allow_Methods canon_Allow_Headers
  canon_Content_Length canon_Content_Type canon_Nosniff canon_TFE_TOKEN canon_TFE_ADDRESS
  canon_TFE_SKIP canon_Tfe_token canon_Tfe_address canon_Tfe_skip

subsection \<open>Origin gate\<close>

lemma originInList_set: "originInList origin xs = (origin \<in> set xs)"
  by (induction xs) auto

lemmas http_defs =
  http_Error_def Write_def WriteHeader_def Header_Set_def Header_Del_def Header_Get_def
  Values_Get_def StatusOK_def StatusForbidden_def StatusBadRequest_def NewRecorder_def
  NewRequest_def setHeader_def setQuery_def mockHandler_def addCORSHeaders_def

text \<open>
  C9.  For every CORS mode string other than \<open>disabled\<close> and \<open>development\<close>, unrecognised
  values such as \<open>foo\<close> included, the admission decision is that of strict mode: an
  origin is admitted if and only if it is literally a member of the configured list; there
  is no localhost bypass and no allow-all bypass.  A request whose \<open>Origin\<close> header is
  present is answered 403 exactly when the origin is not in the list, and the mode read
  from \<open>MCP_CORS_MODE\<close> reaches the gate unvalidated.
\<close>

theorem C9_unrecognised_mode_is_strict:
  assumes "mode \<noteq> ''disabled''" and "mode \<noteq> ''development''"
  shows "isOriginAllowed origin allowed mode = (origin \<in> set allowed)
       \<and> isOriginAllowed origin allowed mode = isOriginAllowed origin allowed ''strict''
       \<and> (Header_Get (Header r) ''Origin'' = origin \<and> origin \<noteq> [] \<longrightarrow>
            ServeHTTP (NewSecurityHandler allowed mode) next w r =
              (if origin \<in> set allowed
                 then (if Method r = ''OPTIONS'' then WriteHeader (addCORSHeaders w origin) StatusOK
                       else next (addCORSHeaders w origin) r)
               else http_Error w ''Origin not allowed'' StatusForbidden))
       \<and> (mode \<noteq> [] \<longrightarrow>
            Mode (LoadCORSConfigFromEnv TrimSpace (env(''MCP_CORS_MODE'' \<mapsto> mode))) = mode)"
  using assms
  by (auto simp: isOriginAllowed_def originInList_set ServeHTTP_def NewSecurityHandler_def
        LoadCORSConfigFromEnv_def Getenv_def Let_def)

theorem C9_unrecognised_mode_is_strict_witness:
  "''foo'' \<noteq> ''disabled'' \<and> ''foo'' \<noteq> ''development''
   \<and> isOriginAllowed ''http://localhost:3000'' [''https://example.com''] ''foo'' = False
   \<and> isOriginAllowed ''http://localhost:3000'' [''https://example.com''] ''strict'' = False
   \<and> isOriginAllowed ''http://localhost:3000'' [''https://example.com''] ''development'' = True
   \<and> isOriginAllowed ''https://evil.com'' [''https://example.com''] ''disabled'' = True
   \<and> Header_Get (Header (setHeader (NewRequest ''GET'') ''Origin'' ''http://localhost:3000''))
        ''Origin'' = ''http://localhost:3000''
   \<and> wStatus (ServeHTTP (NewSecurityHandler [''https://example.com''] ''foo'') mockHandler
        NewRecorder (setHeader (NewRequest ''GET'') ''Origin'' ''http://localhost:3000''))
        = Some 403
   \<and> Mode (LoadCORSConfigFromEnv id [''MCP_CORS_MODE'' \<mapsto> ''foo'']) = ''foo''"
  using C9_unrecognised_mode_is_strict
          [of "''foo''" "''http://localhost:3000''" "[''https://example.com'']"
              "setHeader (NewRequest ''GET'') ''Origin'' ''http://localhost:3000''"
              mockHandler NewRecorder id Map.empty]
  by (simp add: isOriginAllowed_def isLocalOrigin_def HasPrefix_def http_defs canon_simps)

lemma http_Error_status: "wStatus w = None \<Longrightarrow> wStatus (http_Error w msg code) = Some code"
  by (simp add: http_defs Let_def)

lemma http_Error_header:
  "k \<notin> {''Content-Length'', ''Content-Type'', ''X-Content-Type-Options''} \<Longrightarrow>
   wHeader (http_Error w msg code) k = wHeader w k"
  by (simp add: http_defs Let_def canon_simps)

lemma addCORSHeaders_get:
  "Header_Get (wHeader (addCORSHeaders w origin)) ''Access-Control-Allow-Origin'' = origin"
  "Header_Get (wHeader (addCORSHeaders w origin)) ''Access-Control-Allow-Methods'' = ''GET, POST, OPTIONS''"
  "Header_Get (wHeader (addCORSHeaders w origin)) ''Access-Control-Allow-Headers'' = ''Content-Type, Mcp-Session-Id''"
  "Header_Get (wHeader (addCORSHeaders w origin)) ''Access-Control-Max-Age'' = ''3600''"
  by (simp_all add: http_defs Let_def canon_simps)

text \<open>
  C3, as stated, fails: a request without \<open>Origin\<close> header is not always handed to the
  wrapped handler.  An \<open>OPTIONS\<close> request without \<open>Origin\<close> is answered by the gate itself
  and the wrapped handler (here the tests' mock handler, which would write the body
  \<open>success\<close>) is not run.
\<close>

theorem C3_options_without_origin_counterexample:
  "Header_Get (Header (NewRequest ''OPTIONS'')) ''Origin'' = []
   \<and> ServeHTTP (NewSecurityHandler [''https://example.com''] ''strict'') mockHandler NewRecorder
        (NewRequest ''OPTIONS'')
      \<noteq> mockHandler NewRecorder (NewRequest ''OPTIONS'')
   \<and> wBody (ServeHTTP (NewSecurityHandler [''https://example.com''] ''strict'') mockHandler
        NewRecorder (NewRequest ''OPTIONS'')) = []
   \<and> wBody (mockHandler NewRecorder (NewRequest ''OPTIONS'')) = ''success''"
  by (simp add: ServeHTTP_def NewSecurityHandler_def http_defs canon_simps)

text \<open>
  C3, amended.  For every HTTP request on the MCP endpoint: (i) without \<open>Origin\<close> header
  the origin check is skipped and nothing is added to the response; the request is handed
  to the wrapped handler unless its method is \<open>OPTIONS\<close>, which the gate answers with 200
  itself; (ii) with an \<open>Origin\<close> header that the policy does not allow, the reply is
  \<open>http.Error\<close> 403, whatever the wrapped handler is (it is not invoked), and no
  \<open>Access-Control-\<close> header is added; (iii) with an allowed \<open>Origin\<close> the four
  \<open>Access-Control\<close> headers are set (the origin echoed, \<open>GET, POST, OPTIONS\<close>,
  \<open>Content-Type, Mcp-Session-Id\<close>, \<open>3600\<close>) before the request is answered with 200
  (\<open>OPTIONS\<close>) or handed to the wrapped handler.
\<close>

theorem C3_origin_gate:
  "(Header_Get (Header r) ''Origin'' = [] \<longrightarrow>
      ServeHTTP h next w r = (if Method r = ''OPTIONS'' then WriteHeader w StatusOK else next w r))
 \<and> (Header_Get (Header r) ''Origin'' \<noteq> [] \<and>
      \<not> isOriginAllowed (Header_Get (Header r) ''Origin'') (allowedOrigins h) (corsMode h) \<longrightarrow>
      ServeHTTP h next w r = http_Error w ''Origin not allowed'' StatusForbidden
      \<and> (wStatus w = None \<longrightarrow> wStatus (ServeHTTP h next w r) = Some 403)
      \<and> (\<forall>k. HasPrefix k ''Access-Control-'' \<longrightarrow> wHeader (ServeHTTP h next w r) k = wHeader w k))
 \<and> (Header_Get (Header r) ''Origin'' \<noteq> [] \<and>
      isOriginAllowed (Header_Get (Header r) ''Origin'') (allowedOrigins h) (corsMode h) \<longrightarrow>
      ServeHTTP h next w r =
        (if Method r = ''OPTIONS''
           then WriteHeader (addCORSHeaders w (Header_Get (Header r) ''Origin'')) StatusOK
         else next (addCORSHeaders w (Header_Get (Header r) ''Origin'')) r)
      \<and> Header_Get (wHeader (addCORSHeaders w (Header_Get (Header r) ''Origin'')))
            ''Access-Control-Allow-Origin'' = Header_Get (Header r) ''Origin''
      \<and> Header_Get (wHeader (addCORSHeaders w (Header_Get (Header r) ''Origin'')))
            ''Access-Control-Allow-Methods'' = ''GET, POST, OPTIONS''
      \<and> Header_Get (wHeader (addCORSHeaders w (Header_Get (Header r) ''Origin'')))
            ''Access-Control-Allow-Headers'' = ''Content-Type, Mcp-Session-Id''
      \<and> Header_Get (wHeader (addCORSHeaders w (Header_Get (Header r) ''Origin'')))
            ''Access-Control-Max-Age'' = ''3600'')"
proof -
  have keep: "\<And>k msg code. HasPrefix k ''Access-Control-'' \<Longrightarrow>
      wHeader (http_Error w msg code) k = wHeader w k"
    by (rule http_Error_header) (auto simp: HasPrefix_def)
  show ?thesis
    by (auto simp: ServeHTTP_def Let_def addCORSHeaders_get http_Error_status keep
          StatusForbidden_def)
qed

theorem C3_origin_gate_witness:
  "Header_Get (Header (NewRequest ''GET'')) ''Origin'' = []
   \<and> ServeHTTP (NewSecurityHandler [''https://example.com''] ''strict'') mockHandler NewRecorder
        (NewRequest ''GET'') = mockHandler NewRecorder (NewRequest ''GET'')
   \<and> Header_Get (Header (setHeader (NewRequest ''OPTIONS'') ''Origin'' ''https://evil.com''))
        ''Origin'' = ''https://evil.com''
   \<and> \<not> isOriginAllowed ''https://evil.com'' [''https://example.com''] ''strict''
   \<and> wStatus (ServeHTTP (NewSecurityHandler [''https://example.com''] ''strict'') mockHandler
        NewRecorder (setHeader (NewRequest ''OPTIONS'') ''Origin'' ''https://evil.com'')) = Some 403
   \<and> wHeader (ServeHTTP (NewSecurityHandler [''https://example.com''] ''strict'') mockHandler
        NewRecorder (setHeader (NewRequest ''OPTIONS'') ''Origin'' ''https://evil.com''))
        ''Access-Control-Allow-Origin'' = None
   \<and> isOriginAllowed ''https://example.com'' [''https://example.com''] ''strict''
   \<and> wStatus (ServeHTTP (NewSecurityHandler [''https://example.com''] ''strict'') mockHandler
        NewRecorder (setHeader (NewRequest ''OPTIONS'') ''Origin'' ''https://example.com'')) = Some 200
   \<and> Header_Get (wHeader (ServeHTTP (NewSecurityHandler [''https://example.com''] ''strict'')
        mockHandler NewRecorder (setHeader (NewRequest ''OPTIONS'') ''Origin'' ''https://example.com'')))
        ''Access-Control-Allow-Origin'' = ''https://example.com''"
  using C3_origin_gate [of "NewRequest ''GET''" "NewSecurityHandler [''https://example.com''] ''strict''"
                 mockHandler NewRecorder]
        C3_origin_gate [of "setHeader (NewRequest ''OPTIONS'') ''Origin'' ''https://evil.com''"
                 "NewSecurityHandler [''https://example.com''] ''strict''" mockHandler NewRecorder]
        C3_origin_gate [of "setHeader (NewRequest ''OPTIONS'') ''Origin'' ''https://example.com''"
                 "NewSecurityHandler [''https://example.com''] ''strict''" mockHandler NewRecorder]
  by (simp add: isOriginAllowed_def NewSecurityHandler_def HasPrefix_def http_defs canon_simps)

subsection \<open>Start-up mode\<close>

text \<open>
  C5, as stated, fails: with \<open>TRANSPORT_MODE=stdio\<close> as the only transport variable
  present, the environment does not force HTTP mode, and the process runs the stdio server
  (with no subcommand, or with the \<open>stdio\<close> subcommand).
\<close>

theorem C5_transport_mode_stdio_counterexample:
  "[''TRANSPORT_MODE'' \<mapsto> ''stdio''] ''TRANSPORT_MODE'' = Some ''stdio''
   \<and> \<not> shouldUseStreamableHTTPMode [''TRANSPORT_MODE'' \<mapsto> ''stdio'']
   \<and> main (\<lambda>path. None) [''TRANSPORT_MODE'' \<mapsto> ''stdio''] (Parsed [] RootCmd) = RunStdioServer
   \<and> main (\<lambda>path. None) [''TRANSPORT_MODE'' \<mapsto> ''stdio''] (Parsed [] StdioCmd) = RunStdioServer"
  by (simp add: main_def shouldUseStreamableHTTPMode_def Getenv_def initLogger_def)

text \<open>
  C5, amended.  The process starts in HTTP (streamable-http) mode, whatever the command
  line, exactly when \<open>TRANSPORT_MODE\<close> is \<open>http\<close> or \<open>streamable-http\<close>, or one of
  \<open>TRANSPORT_PORT\<close>, \<open>TRANSPORT_HOST\<close>, \<open>MCP_ENDPOINT\<close> is set to a non-empty value; a
  non-empty \<open>TRANSPORT_PORT\<close>, \<open>TRANSPORT_HOST\<close> or \<open>MCP_ENDPOINT\<close> forces HTTP mode also
  when \<open>TRANSPORT_MODE\<close> is \<open>stdio\<close>.  Otherwise the command line decides.
\<close>

theorem C5_http_mode_from_environment:
  "main OpenFile env args =
     (if env ''TRANSPORT_MODE'' = Some ''http'' \<or> env ''TRANSPORT_MODE'' = Some ''streamable-http''
         \<or> (\<exists>v. v \<noteq> [] \<and> (env ''TRANSPORT_PORT'' = Some v \<or> env ''TRANSPORT_HOST'' = Some v
                               \<or> env ''MCP_ENDPOINT'' = Some v))
      then RunHTTPServer (getHTTPHost env) (getHTTPPort env) (getEndpointPath env None)
      else Execute OpenFile args)"
  by (auto simp: main_def shouldUseStreamableHTTPMode_def Getenv_def Let_def initLogger_def
      split: option.splits)

theorem C5_http_mode_from_environment_witness:
  "main (\<lambda>path. None) [''TRANSPORT_MODE'' \<mapsto> ''stdio'', ''TRANSPORT_PORT'' \<mapsto> ''9090'']
       (Parsed [] StdioCmd)
     = RunHTTPServer ''127.0.0.1'' ''9090'' ''/mcp''
   \<and> main (\<lambda>path. None) [''TRANSPORT_MODE'' \<mapsto> ''streamable-http''] (Parsed [] StdioCmd)
     = RunHTTPServer ''127.0.0.1'' ''8080'' ''/mcp''
   \<and> main (\<lambda>path. None) [''TRANSPORT_MODE'' \<mapsto> ''stdio'', ''TRANSPORT_PORT'' \<mapsto> []]
       (Parsed [] RootCmd)
     = RunStdioServer"
  using C5_http_mode_from_environment
          [of "\<lambda>path. None" "[''TRANSPORT_MODE'' \<mapsto> ''stdio'', ''TRANSPORT_PORT'' \<mapsto> ''9090'']"
              "Parsed [] StdioCmd"]
        C5_http_mode_from_environment
          [of "\<lambda>path. None" "[''TRANSPORT_MODE'' \<mapsto> ''streamable-http'']" "Parsed [] StdioCmd"]
        C5_http_mode_from_environment
          [of "\<lambda>path. None" "[''TRANSPORT_MODE'' \<mapsto> ''stdio'', ''TRANSPORT_PORT'' \<mapsto> []]"
              "Parsed [] RootCmd"]
  by (simp add: getHTTPHost_def getHTTPPort_def getEndpointPath_def Getenv_def initLogger_def)

subsection \<open>Context enrichment\<close>

text \<open>
  C2.  The middleware is meant to refuse every request whose query carries a non-empty
  \<open>TFE_TOKEN\<close>: its comment, its log line, its error text and its test say so without
  condition.  The code does refuse such a request when the \<open>TFE_TOKEN\<close> header gives no
  value (second part below: 400 and the fixed message, the handler is not run).  It
  misses the request that carries a token in the header as well: the check is nested
  under the test that the header value is empty, so the request is handed on and the
  handler runs (first part: status 200, body \<open>success\<close>).  The check also reads the first
  query value only, so a query whose first \<open>TFE_TOKEN\<close> is empty and whose second is not
  passes too (third part).
\<close>

theorem C2_header_shadows_query_token:
  "Values_Get (Query (setQuery (setHeader (NewRequest ''POST'') ''TFE_TOKEN'' ''header-token'')
       ''TFE_TOKEN'' ''query-token'')) TerraformToken = ''query-token''
   \<and> TerraformContextMiddleware Map.empty mockHandler NewRecorder
       (setQuery (setHeader (NewRequest ''POST'') ''TFE_TOKEN'' ''header-token'') ''TFE_TOKEN'' ''query-token'')
     = mockHandler NewRecorder
         ((setQuery (setHeader (NewRequest ''POST'') ''TFE_TOKEN'' ''header-token'') ''TFE_TOKEN'' ''query-token'')
            \<lparr>Context := \<lparr>Session = None,
                           Values = [''TFE_ADDRESS'' \<mapsto> [], ''TFE_TOKEN'' \<mapsto> ''header-token'',
                                     ''TFE_SKIP_TLS_VERIFY'' \<mapsto> []]\<rparr>\<rparr>)
   \<and> wStatus (TerraformContextMiddleware Map.empty mockHandler NewRecorder
       (setQuery (setHeader (NewRequest ''POST'') ''TFE_TOKEN'' ''header-token'') ''TFE_TOKEN'' ''query-token''))
     = Some 200
   \<and> wBody (TerraformContextMiddleware Map.empty mockHandler NewRecorder
       (setQuery (setHeader (NewRequest ''POST'') ''TFE_TOKEN'' ''header-token'') ''TFE_TOKEN'' ''query-token''))
     = ''success''
   \<and> TerraformContextMiddleware Map.empty mockHandler NewRecorder
       (setQuery (NewRequest ''POST'') ''TFE_TOKEN'' ''query-token'')
     = http_Error NewRecorder tokenInQueryMessage StatusBadRequest
   \<and> wStatus (TerraformContextMiddleware Map.empty mockHandler NewRecorder
       (setQuery (NewRequest ''POST'') ''TFE_TOKEN'' ''query-token'')) = Some 400
   \<and> wStatus (TerraformContextMiddleware Map.empty mockHandler NewRecorder
       ((NewRequest ''POST'')\<lparr>Query := [''TFE_TOKEN'' \<mapsto> [[], ''secret'']]\<rparr>)) = Some 200"
  by (simp add: TerraformContextMiddleware_def Let_def TerraformAddress_def TerraformToken_def
        TerraformSkipTLSVerify_def GetEnv_def http_defs canon_simps)

subsection \<open>Credential gate and dynamic registration\<close>

text \<open>
  C1.  For every invocation of a credentialed tool on a session that lacks a backend
  client (the request context has no session, or the session is absent from the
  registry's set and \<open>GetTfeClient\<close> finds no client for its ID), the wrapped handler
  returns a diagnostic error result and leaves the process state as it was.  The result
  is the same for every original handler: the original handler is not called, so no
  backend work happens.
\<close>

theorem C1_credential_gate:
  assumes "Session ctx = None \<or>
           (\<exists>sid. Session ctx = Some sid \<and> sessionsWithTFE (registry p) sid = None
                  \<and> GetTfeClient p sid = None)"
  shows "createDynamicTFETool name originalHandler ctx req p =
           (Inr (NewToolResultError
                   (if Session ctx = None then noSessionMessage else noClientMessage)), p)"
  using assms
  by (auto simp: createDynamicTFETool_def HasSessionWithTFE_def)

theorem C1_credential_gate_witness:
  "createDynamicTFETool ''list_terraform_orgs''
      (\<lambda>ctx req p. (Inr (NewToolResultText ''orgs''), p\<lparr>backend := Suc (backend p)\<rparr>))
      \<lparr>Session = Some ''s1'', Values = Map.empty\<rparr>
      \<lparr>toolName = ''list_terraform_orgs'', toolArguments = Map.empty\<rparr>
      \<lparr>registry = registerDynamicTools [], activeTfeClients = Map.empty, backend = 0::nat\<rparr>
    = (Inr (NewToolResultError noClientMessage),
       \<lparr>registry = registerDynamicTools [], activeTfeClients = Map.empty, backend = 0::nat\<rparr>)
   \<and> createDynamicTFETool ''list_terraform_orgs''
      (\<lambda>ctx req p. (Inr (NewToolResultText ''orgs''), p\<lparr>backend := Suc (backend p)\<rparr>))
      \<lparr>Session = None, Values = Map.empty\<rparr>
      \<lparr>toolName = ''list_terraform_orgs'', toolArguments = Map.empty\<rparr>
      \<lparr>registry = registerDynamicTools [], activeTfeClients = [''s1'' \<mapsto> ()], backend = 0::nat\<rparr>
    = (Inr (NewToolResultError noSessionMessage),
       \<lparr>registry = registerDynamicTools [], activeTfeClients = [''s1'' \<mapsto> ()], backend = 0::nat\<rparr>)
   \<and> backend (snd (createDynamicTFETool ''list_terraform_orgs''
      (\<lambda>ctx req p. (Inr (NewToolResultText ''orgs''), p\<lparr>backend := Suc (backend p)\<rparr>))
      \<lparr>Session = Some ''s1'', Values = Map.empty\<rparr>
      \<lparr>toolName = ''list_terraform_orgs'', toolArguments = Map.empty\<rparr>
      \<lparr>registry = registerDynamicTools [], activeTfeClients = [''s1'' \<mapsto> ()], backend = 0::nat\<rparr>))
    = 1"
  using C1_credential_gate
          [of "\<lparr>Session = Some ''s1'', Values = Map.empty\<rparr>"
              "\<lparr>registry = registerDynamicTools [], activeTfeClients = Map.empty, backend = 0::nat\<rparr>"
              "''list_terraform_orgs''"
              "\<lambda>ctx req p. (Inr (NewToolResultText ''orgs''), p\<lparr>backend := Suc (backend p)\<rparr>)"
              "\<lparr>toolName = ''list_terraform_orgs'', toolArguments = Map.empty\<rparr>"]
        C1_credential_gate
          [of "\<lparr>Session = None, Values = Map.empty\<rparr>"
              "\<lparr>registry = registerDynamicTools [], activeTfeClients = [''s1'' \<mapsto> ()], backend = 0::nat\<rparr>"
              "''list_terraform_orgs''"
              "\<lambda>ctx req p. (Inr (NewToolResultText ''orgs''), p\<lparr>backend := Suc (backend p)\<rparr>)"
              "\<lparr>toolName = ''list_terraform_orgs'', toolArguments = Map.empty\<rparr>"]
  by (simp add: registerDynamicTools_def GetTfeClient_def createDynamicTFETool_def
        HasSessionWithTFE_def)











subsection \<open>Rate limiting\<close>

text \<open>
  C4.  For every \<open>callTool\<close> request the middleware first asks the global bucket for one
  token.  If the global bucket denies, the call is rejected with the global
  rate-limit-exceeded error, whatever the handler is (the handler is not invoked and the
  state it works on is untouched), and the session buckets are as before: none is
  created and none loses a token.  Only if the global bucket allows and the context carries
  a non-empty session ID is the session's bucket consulted, the stored one or, on first
  use, a new one with the configured per-session rate and burst; if it denies, the call is
  rejected with the session rate-limit-exceeded error and the handler is not invoked.
  Otherwise the handler runs.
\<close>

theorem C4_rate_limit_order:
  "(\<not> fst (Allow tGlobal (globalLimiter m)) \<longrightarrow>
      Middleware tGlobal tSession nextHandler ctx request (m, p)
        = (Inl (Error globalLimitMessage),
           (m\<lparr>globalLimiter := snd (Allow tGlobal (globalLimiter m))\<rparr>, p)))
 \<and> (fst (Allow tGlobal (globalLimiter m)) \<and> Session ctx = Some sessionID \<and> sessionID \<noteq> [] \<longrightarrow>
      (let bucket = (case sessionLimiters m sessionID of
                       Some limiter \<Rightarrow> limiter
                     | None \<Rightarrow> NewLimiter (PerSessionLimit (config m)) (PerSessionBurst (config m)));
           m' = m\<lparr>globalLimiter := snd (Allow tGlobal (globalLimiter m)),
                   sessionLimiters := (sessionLimiters m)(sessionID \<mapsto> snd (Allow tSession bucket))\<rparr>
       in Middleware tGlobal tSession nextHandler ctx request (m, p)
            = (if \<not> fst (Allow tSession bucket) then (Inl (Error sessionLimitMessage), (m', p))
               else (fst (nextHandler ctx request p), (m', snd (nextHandler ctx request p))))))
 \<and> (fst (Allow tGlobal (globalLimiter m)) \<and> (Session ctx = None \<or> Session ctx = Some []) \<longrightarrow>
      Middleware tGlobal tSession nextHandler ctx request (m, p)
        = (fst (nextHandler ctx request p),
           (m\<lparr>globalLimiter := snd (Allow tGlobal (globalLimiter m))\<rparr>, snd (nextHandler ctx request p))))"
  by (auto simp: Middleware_def Let_def getSessionLimiter_def getSessionIDFromContext_def
      split: prod.splits option.splits)

theorem C4_rate_limit_order_witness:
  "\<not> fst (Allow 0 \<lparr>lim_limit = 1, lim_burst = 1, lim_tokens = 0, lim_last = 0\<rparr>)
   \<and> Middleware 0 0 (\<lambda>ctx req p. (Inr (NewToolResultText ''success''), Suc p))
        \<lparr>Session = Some ''s1'', Values = Map.empty\<rparr>
        \<lparr>toolName = ''test_tool'', toolArguments = Map.empty\<rparr>
        (\<lparr>config = \<lparr>GlobalLimit = 1, GlobalBurst = 1, PerSessionLimit = 1, PerSessionBurst = 1\<rparr>,
          globalLimiter = \<lparr>lim_limit = 1, lim_burst = 1, lim_tokens = 0, lim_last = 0\<rparr>,
          sessionLimiters = Map.empty\<rparr>, 0::nat)
      = (Inl (Error globalLimitMessage),
         (\<lparr>config = \<lparr>GlobalLimit = 1, GlobalBurst = 1, PerSessionLimit = 1, PerSessionBurst = 1\<rparr>,
          globalLimiter = \<lparr>lim_limit = 1, lim_burst = 1, lim_tokens = 0, lim_last = 0\<rparr>,
          sessionLimiters = Map.empty\<rparr>, 0))
   \<and> fst (Allow 0 (NewLimiter 10 20))
   \<and> \<not> fst (Allow 0 \<lparr>lim_limit = 5, lim_burst = 10, lim_tokens = 0, lim_last = 0\<rparr>)
   \<and> fst (Middleware 0 0 (\<lambda>ctx req p. (Inr (NewToolResultText ''success''), Suc p))
        \<lparr>Session = Some ''s1'', Values = Map.empty\<rparr>
        \<lparr>toolName = ''test_tool'', toolArguments = Map.empty\<rparr>
        (\<lparr>config = \<lparr>GlobalLimit = 10, GlobalBurst = 20, PerSessionLimit = 5, PerSessionBurst = 10\<rparr>,
          globalLimiter = NewLimiter 10 20,
          sessionLimiters = [''s1'' \<mapsto> \<lparr>lim_limit = 5, lim_burst = 10, lim_tokens = 0, lim_last = 0\<rparr>]\<rparr>,
         0::nat))
      = Inl (Error sessionLimitMessage)
   \<and> snd (snd (Middleware 0 0 (\<lambda>ctx req p. (Inr (NewToolResultText ''success''), Suc p))
        \<lparr>Session = Some ''s1'', Values = Map.empty\<rparr>
        \<lparr>toolName = ''test_tool'', toolArguments = Map.empty\<rparr>
        (\<lparr>config = \<lparr>GlobalLimit = 10, GlobalBurst = 20, PerSessionLimit = 5, PerSessionBurst = 10\<rparr>,
          globalLimiter = NewLimiter 10 20,
          sessionLimiters = [''s1'' \<mapsto> \<lparr>lim_limit = 5, lim_burst = 10, lim_tokens = 0, lim_last = 0\<rparr>]\<rparr>,
         0::nat))) = 0
   \<and> Middleware 0 0 (\<lambda>ctx req p. (Inr (NewToolResultText ''success''), Suc p))
        \<lparr>Session = Some ''s1'', Values = Map.empty\<rparr>
        \<lparr>toolName = ''test_tool'', toolArguments = Map.empty\<rparr>
        (NewRateLimitMiddleware
           \<lparr>GlobalLimit = 10, GlobalBurst = 20, PerSessionLimit = 5, PerSessionBurst = 10\<rparr>, 0::nat)
      = (Inr (NewToolResultText ''success''),
         (\<lparr>config = \<lparr>GlobalLimit = 10, GlobalBurst = 20, PerSessionLimit = 5, PerSessionBurst = 10\<rparr>,
           globalLimiter = \<lparr>lim_limit = 10, lim_burst = 20, lim_tokens = 19, lim_last = 0\<rparr>,
           sessionLimiters = [''s1'' \<mapsto> \<lparr>lim_limit = 5, lim_burst = 10, lim_tokens = 9, lim_last = 0\<rparr>]\<rparr>,
          1))"
  using C4_rate_limit_order [where tGlobal = 0 and tSession = 0 and p = "0::nat" and sessionID = "''s1''"
          and nextHandler = "\<lambda>ctx req p. (Inr (NewToolResultText ''success''), Suc p)"
          and ctx = "\<lparr>Session = Some ''s1'', Values = Map.empty\<rparr>"
          and request = "\<lparr>toolName = ''test_tool'', toolArguments = Map.empty\<rparr>"
          and m = "\<lparr>config = \<lparr>GlobalLimit = 1, GlobalBurst = 1, PerSessionLimit = 1, PerSessionBurst = 1\<rparr>,
          globalLimiter = \<lparr>lim_limit = 1, lim_burst = 1, lim_tokens = 0, lim_last = 0\<rparr>,
          sessionLimiters = Map.empty\<rparr>"]
    C4_rate_limit_order [where tGlobal = 0 and tSession = 0 and p = "0::nat" and sessionID = "''s1''"
          and nextHandler = "\<lambda>ctx req p. (Inr (NewToolResultText ''success''), Suc p)"
          and ctx = "\<lparr>Session = Some ''s1'', Values = Map.empty\<rparr>"
          and request = "\<lparr>toolName = ''test_tool'', toolArguments = Map.empty\<rparr>"
          and m = "\<lparr>config = \<lparr>GlobalLimit = 10, GlobalBurst = 20, PerSessionLimit = 5, PerSessionBurst = 10\<rparr>,
          globalLimiter = NewLimiter 10 20,
          sessionLimiters = [''s1'' \<mapsto> \<lparr>lim_limit = 5, lim_burst = 10, lim_tokens = 0, lim_last = 0\<rparr>]\<rparr>"]
    C4_rate_limit_order [where tGlobal = 0 and tSession = 0 and p = "0::nat" and sessionID = "''s1''"
          and nextHandler = "\<lambda>ctx req p. (Inr (NewToolResultText ''success''), Suc p)"
          and ctx = "\<lparr>Session = Some ''s1'', Values = Map.empty\<rparr>"
          and request = "\<lparr>toolName = ''test_tool'', toolArguments = Map.empty\<rparr>"
          and m = "NewRateLimitMiddleware
           \<lparr>GlobalLimit = 10, GlobalBurst = 20, PerSessionLimit = 5, PerSessionBurst = 10\<rparr>"]
  by (simp add: Allow_def NewLimiter_def NewRateLimitMiddleware_def Let_def)

subsection \<open>Registry calls\<close>

text \<open>
  C10, as stated, fails in its last part: the response body is not returned whenever the
  status is 200.  When \<open>client.Do\<close> hands back a response with status 200 and reading
  its body fails, \<open>SendRegistryCall\<close> returns the read error and no body.
\<close>

theorem C10_body_read_error_counterexample:
  "client_Do (exampleRegistry\<lparr>client_Do := \<lambda>client sent req.
        Inr \<lparr>StatusCode = 200, Status = ''200 OK'', RespHeader = Map.empty, Body = Inl (Error ''unexpected EOF'')\<rparr>\<rparr>)
      (createHTTPClient False) []
      \<lparr>reqMethod = ''GET'', reqURL = ''https://registry.terraform.io/v1/providers/hashicorp/aws'',
        reqUserAgent = ''terraform-mcp-server/dev''\<rparr>
     = Inr \<lparr>StatusCode = 200, Status = ''200 OK'', RespHeader = Map.empty, Body = Inl (Error ''unexpected EOF'')\<rparr>
   \<and> fst (SendRegistryCall
        (exampleRegistry\<lparr>client_Do := \<lambda>client sent req.
           Inr \<lparr>StatusCode = 200, Status = ''200 OK'', RespHeader = Map.empty, Body = Inl (Error ''unexpected EOF'')\<rparr>\<rparr>)
        (createHTTPClient False) ''GET'' ''providers/hashicorp/aws'' [''v1''] emptyWorld)
     = Inl (Error ''unexpected EOF'')"
  by (simp add: SendRegistryCall_def exampleRegistry_def emptyWorld_def DefaultPublicRegistryURL_def
        StatusOKInt_def)

text \<open>
  C10, amended.  For every response that \<open>client.Do\<close> hands back to \<open>SendRegistryCall\<close>
  (the client follows redirects and retries by its own policy before it hands a response
  back): if its status is not exactly 200, \<open>SendRegistryCall\<close> returns the error with the
  fixed message \<open>error: 404 Not Found\<close>, whatever the status is (a 500 is reported as 404
  Not Found too), and no body; a body is returned if and only if the status is 200 and
  reading the response body succeeds, and it is then that body.
\<close>

theorem C10_non_200_is_404:
  assumes "url_Parse x (DefaultPublicRegistryURL @ ''/'' @ (case callOptions of [] \<Rightarrow> ''v1'' | v # vs \<Rightarrow> v)
              @ ''/'' @ uri) = Inr url"
      and "http_NewRequest x httpMethod url = None"
      and "client_Do x client (wire w)
             \<lparr>reqMethod = httpMethod, reqURL = url,
              reqUserAgent = ''terraform-mcp-server/'' @ GetHumanVersion x\<rparr> = Inr resp"
  shows "(StatusCode resp \<noteq> 200 \<longrightarrow>
            fst (SendRegistryCall x client httpMethod uri callOptions w) = Inl (Error ''error: 404 Not Found''))
       \<and> (fst (SendRegistryCall x client httpMethod uri callOptions w) = Inr body
            \<longleftrightarrow> StatusCode resp = 200 \<and> Body resp = Inr body)
       \<and> wire (snd (SendRegistryCall x client httpMethod uri callOptions w))
            = wire w @ [\<lparr>reqMethod = httpMethod, reqURL = url,
                          reqUserAgent = ''terraform-mcp-server/'' @ GetHumanVersion x\<rparr>]"
  using assms
  by (auto simp: SendRegistryCall_def Let_def StatusOKInt_def split: sum.splits)

theorem C10_non_200_is_404_witness:
  "fst (SendRegistryCall exampleRegistry (createHTTPClient False) ''GET'' ''providers/hashicorp/azurerm''
          [''v1''] emptyWorld) = Inl (Error ''error: 404 Not Found'')
   \<and> StatusCode (exampleResponse ''https://registry.terraform.io/v1/providers/hashicorp/azurerm'') = 500
   \<and> fst (SendRegistryCall exampleRegistry (createHTTPClient False) ''GET'' ''providers/hashicorp/aws''
          [''v1''] emptyWorld) = Inr ''5.0.0''"
  using C10_non_200_is_404 [where x = exampleRegistry and callOptions = "[''v1'']" and uri = "''providers/hashicorp/azurerm''"
                and url = "''https://registry.terraform.io/v1/providers/hashicorp/azurerm''"
                and httpMethod = "''GET''" and client = "createHTTPClient False" and w = emptyWorld
                and resp = "exampleResponse ''https://registry.terraform.io/v1/providers/hashicorp/azurerm''"]
        C10_non_200_is_404 [where x = exampleRegistry and callOptions = "[''v1'']" and uri = "''providers/hashicorp/aws''"
                and url = "''https://registry.terraform.io/v1/providers/hashicorp/aws''"
                and httpMethod = "''GET''" and client = "createHTTPClient False" and w = emptyWorld
                and resp = "exampleResponse ''https://registry.terraform.io/v1/providers/hashicorp/aws''"
                and body = "''5.0.0''"]
  by (simp add: exampleRegistry_def exampleResponse_def DefaultPublicRegistryURL_def)

subsection \<open>Provider versions\<close>

lemma nullable_uncapture: "nullable (uncapture r) = nullable r"
  by (induction r) simp_all

lemma deriv_uncapture: "uncapture (deriv c r) = deriv c (uncapture r)"
  by (induction r) (simp_all add: nullable_uncapture)

lemma derivs_uncapture: "uncapture (derivs r s) = derivs (uncapture r) s"
  by (induction s arbitrary: r) (simp_all add: deriv_uncapture)

lemma MatchString_uncapture: "MatchString (uncapture r) s = MatchString r s"
  unfolding MatchString_def
  by (metis derivs_uncapture nullable_uncapture)

lemma alnum_class:
  "inRanges [(CHR ''a'', CHR ''z''), (CHR ''A'', CHR ''Z''), (CHR ''0'', CHR ''9'')]
   = inRanges [(CHR ''A'', CHR ''Z''), (CHR ''a'', CHR ''z''), (CHR ''0'', CHR ''9'')]"
  by (rule ext) auto

lemma semver_patterns: "uncapture semverRegex = uncapture documentedSemverPattern"
  by (simp add: semverRegex_def documentedSemverPattern_def Quest_def Plus_def alnum_class)

lemma IsValid_documented:
  "IsValidProviderVersionFormat version = MatchString documentedSemverPattern version"
  unfolding IsValidProviderVersionFormat_def
  by (metis MatchString_uncapture semver_patterns)

text \<open>
  C7.  For every read of the provider resource template whose URI yields the version slot
  \<open>version\<close>: if the slot is empty, equals \<open>latest\<close>, or does not match the documented
  pattern \<^verbatim>\<open>^v?\d+\.\d+\.\d+(-[A-Za-z0-9]+)?$\<close>, the reader first resolves the latest
  provider version, and then fetches the overview documentation for the version so
  resolved, starting from the state that the resolution has left (a failed resolution
  ends the read with its error); if the slot does match the pattern, the overview
  documentation is fetched for the version as given and no resolution takes place.
\<close>

theorem C7_version_resolution:
  assumes "ExtractProviderNameAndVersion resourceURI = Inr (namespace, name, version)"
  shows "(version = [] \<or> version = ''latest'' \<or> \<not> MatchString documentedSemverPattern version \<longrightarrow>
            providerResourceTemplateHelper x httpClient resourceURI w =
              (case GetLatestProviderVersion x httpClient namespace name w of
                 (Inl err, w') \<Rightarrow>
                   (Inl (LogAndReturnError
                           (''getting '' @ namespace @ ''/'' @ name
                              @ '' latest provider version for resource template'') err), w')
               | (Inr latest, w') \<Rightarrow> fetchOverviewDocs x httpClient namespace name latest w'))
       \<and> (version \<noteq> [] \<and> version \<noteq> ''latest'' \<and> MatchString documentedSemverPattern version \<longrightarrow>
            providerResourceTemplateHelper x httpClient resourceURI w =
              fetchOverviewDocs x httpClient namespace name version w)"
  using assms
  by (simp add: providerResourceTemplateHelper_def IsValid_documented)


theorem C7_version_resolution_witness:
  "ExtractProviderNameAndVersion ''registry://providers/hashicorp/name/aws/version/foo''
     = Inr (''hashicorp'', ''aws'', ''foo'')
   \<and> \<not> MatchString documentedSemverPattern ''foo''
   \<and> fst (providerResourceTemplateHelper exampleRegistry (createHTTPClient False)
        ''registry://providers/hashicorp/name/aws/version/foo'' emptyWorld)
      = Inr ''# AWS Provider# Guides''
   \<and> map reqURL (wire (snd (providerResourceTemplateHelper exampleRegistry (createHTTPClient False)
        ''registry://providers/hashicorp/name/aws/version/foo'' emptyWorld)))
      = [''https://registry.terraform.io/v1/providers/hashicorp/aws'',
         ''https://registry.terraform.io/v2/providers/hashicorp/aws?include=provider-versions'',
         ''https://registry.terraform.io/v2/provider-docs?filter[provider-version]=70800&filter[category]=overview&filter[slug]=index'',
         ''https://registry.terraform.io/v2/provider-docs/8862001'',
         ''https://registry.terraform.io/v2/provider-docs/8862002'']
   \<and> ExtractProviderNameAndVersion ''registry://providers/hashicorp/name/aws/version/5.0.0''
     = Inr (''hashicorp'', ''aws'', ''5.0.0'')
   \<and> MatchString documentedSemverPattern ''5.0.0''
   \<and> map reqURL (wire (snd (providerResourceTemplateHelper exampleRegistry (createHTTPClient False)
        ''registry://providers/hashicorp/name/aws/version/5.0.0'' emptyWorld)))
      = [''https://registry.terraform.io/v2/providers/hashicorp/aws?include=provider-versions'',
         ''https://registry.terraform.io/v2/provider-docs?filter[provider-version]=70800&filter[category]=overview&filter[slug]=index'',
         ''https://registry.terraform.io/v2/provider-docs/8862001'',
         ''https://registry.terraform.io/v2/provider-docs/8862002'']"
proof -
  have e1: "ExtractProviderNameAndVersion ''registry://providers/hashicorp/name/aws/version/foo''
     = Inr (''hashicorp'', ''aws'', ''foo'')"
    by code_simp
  have e2: "ExtractProviderNameAndVersion ''registry://providers/hashicorp/name/aws/version/5.0.0''
     = Inr (''hashicorp'', ''aws'', ''5.0.0'')"
    by code_simp
  have m1: "\<not> MatchString documentedSemverPattern ''foo''"
    by code_simp
  have m2: "MatchString documentedSemverPattern ''5.0.0''"
    by code_simp
  have l: "GetLatestProviderVersion exampleRegistry (createHTTPClient False) ''hashicorp'' ''aws'' emptyWorld
     = (Inr ''5.0.0'', \<lparr>activeHttpClients = Map.empty, wire =
          [\<lparr>reqMethod = ''GET'', reqURL = ''https://registry.terraform.io/v1/providers/hashicorp/aws'',
            reqUserAgent = ''terraform-mcp-server/dev''\<rparr>]\<rparr>)"
    by (simp add: GetLatestProviderVersion_def SendRegistryCall_def exampleRegistry_def
          exampleResponse_def emptyWorld_def DefaultPublicRegistryURL_def StatusOKInt_def)
  have f1: "fetchOverviewDocs exampleRegistry (createHTTPClient False) ''hashicorp'' ''aws'' ''5.0.0''
      \<lparr>activeHttpClients = Map.empty, wire =
          [\<lparr>reqMethod = ''GET'', reqURL = ''https://registry.terraform.io/v1/providers/hashicorp/aws'',
            reqUserAgent = ''terraform-mcp-server/dev''\<rparr>]\<rparr>
     = (Inr ''# AWS Provider# Guides'', \<lparr>activeHttpClients = Map.empty, wire =
          [\<lparr>reqMethod = ''GET'', reqURL = ''https://registry.terraform.io/v1/providers/hashicorp/aws'',
            reqUserAgent = ''terraform-mcp-server/dev''\<rparr>,
           \<lparr>reqMethod = ''GET'', reqURL = ''https://registry.terraform.io/v2/providers/hashicorp/aws?include=provider-versions'',
            reqUserAgent = ''terraform-mcp-server/dev''\<rparr>,
           \<lparr>reqMethod = ''GET'', reqURL = ''https://registry.terraform.io/v2/provider-docs?filter[provider-version]=70800&filter[category]=overview&filter[slug]=index'',
            reqUserAgent = ''terraform-mcp-server/dev''\<rparr>,
           \<lparr>reqMethod = ''GET'', reqURL = ''https://registry.terraform.io/v2/provider-docs/8862001'',
            reqUserAgent = ''terraform-mcp-server/dev''\<rparr>,
           \<lparr>reqMethod = ''GET'', reqURL = ''https://registry.terraform.io/v2/provider-docs/8862002'',
            reqUserAgent = ''terraform-mcp-server/dev''\<rparr>]\<rparr>)"
    by (simp add: fetchOverviewDocs_def GetProviderVersionID_def GetProviderOverviewDocs_def
          GetProviderResourceDocs_def SendRegistryCall_def exampleRegistry_def
          exampleResponse_def DefaultPublicRegistryURL_def StatusOKInt_def)
  have f2: "map reqURL (wire (snd (fetchOverviewDocs exampleRegistry (createHTTPClient False)
      ''hashicorp'' ''aws'' ''5.0.0'' emptyWorld)))
     = [''https://registry.terraform.io/v2/providers/hashicorp/aws?include=provider-versions'',
         ''https://registry.terraform.io/v2/provider-docs?filter[provider-version]=70800&filter[category]=overview&filter[slug]=index'',
         ''https://registry.terraform.io/v2/provider-docs/8862001'',
         ''https://registry.terraform.io/v2/provider-docs/8862002'']"
    by (simp add: fetchOverviewDocs_def GetProviderVersionID_def GetProviderOverviewDocs_def
          GetProviderResourceDocs_def SendRegistryCall_def exampleRegistry_def emptyWorld_def
          exampleResponse_def DefaultPublicRegistryURL_def StatusOKInt_def)
  from C7_version_resolution [OF e1, of exampleRegistry "createHTTPClient False" emptyWorld]
       C7_version_resolution [OF e2, of exampleRegistry "createHTTPClient False" emptyWorld]
  show ?thesis
    by (simp add: e1 e2 m1 m2 l f1 f2)
qed

subsection \<open>Provider resource template\<close>

text \<open>
  C8, as stated, fails: the read does not return one chunk per source document, each with
  the sub-URI of its document.  On the example upstream the read of
  \<open>registry://providers/hashicorp/name/aws/version/latest\<close> fetches two overview documents
  (\<open>provider-docs/8862001\<close> and \<open>provider-docs/8862002\<close>) and returns a single chunk that
  holds both texts and carries the URI of the template.
\<close>

theorem C8_single_chunk_counterexample:
  "providerResourceTemplate exampleRegistry providerTemplateURI
      \<lparr>Session = Some ''s1'', Values = Map.empty\<rparr>
      ''registry://providers/hashicorp/name/aws/version/latest'' emptyWorld
    = (Inr [\<lparr>MIMEType = ''text/markdown'',
              URI = ''registry:/providers/{namespace}/name/{name}/version/{version}'',
              Text = ''# AWS Provider# Guides''\<rparr>],
       \<lparr>activeHttpClients = [''s1'' \<mapsto> createHTTPClient False],
        wire = map (\<lambda>url. \<lparr>reqMethod = ''GET'', reqURL = url, reqUserAgent = ''terraform-mcp-server/dev''\<rparr>)
          [''https://registry.terraform.io/v1/providers/hashicorp/aws'',
           ''https://registry.terraform.io/v2/providers/hashicorp/aws?include=provider-versions'',
           ''https://registry.terraform.io/v2/provider-docs?filter[provider-version]=70800&filter[category]=overview&filter[slug]=index'',
           ''https://registry.terraform.io/v2/provider-docs/8862001'',
           ''https://registry.terraform.io/v2/provider-docs/8862002'']\<rparr>)"
proof -
  have e: "ExtractProviderNameAndVersion ''registry://providers/hashicorp/name/aws/version/latest''
     = Inr (''hashicorp'', ''aws'', ''latest'')"
    by code_simp
  show ?thesis
    by (simp add: providerResourceTemplate_def GetHttpClientFromContext_def GetHttpClient_def
          CreateHttpClientForSession_def NewHttpClient_def parseTerraformSkipTLSVerify_def
          createHTTPClient_def providerResourceTemplateHelper_def e
          GetLatestProviderVersion_def fetchOverviewDocs_def GetProviderVersionID_def
          GetProviderOverviewDocs_def GetProviderResourceDocs_def SendRegistryCall_def
          exampleRegistry_def exampleResponse_def emptyWorld_def DefaultPublicRegistryURL_def
          StatusOKInt_def providerTemplateURI_def Let_def)
qed

lemma overviewPages_trace:
  "overviewPages x c pages acc w = (Inr docs, w') \<Longrightarrow>
   \<exists>contents ws.
     length contents = length pages \<and> length ws = Suc (length pages) \<and>
     ws ! 0 = w \<and> ws ! length pages = w' \<and>
     (\<forall>i<length pages.
        GetProviderResourceDocs x c (pages ! i) (ws ! i) = (Inr (contents ! i), ws ! Suc i)) \<and>
     docs = acc @ concat contents"
proof (induction pages arbitrary: acc w)
  case Nil
  then show ?case
    by (intro exI [of _ "[]"] exI [of _ "[w]"]) simp
next
  case (Cons pageID rest)
  from Cons.prems obtain content w1 where
    first: "GetProviderResourceDocs x c pageID w = (Inr content, w1)" and
    rest: "overviewPages x c rest (acc @ content) w1 = (Inr docs, w')"
    by (auto split: prod.splits sum.splits)
  from Cons.IH [OF rest] obtain contents ws where
    len: "length contents = length rest" "length ws = Suc (length rest)" and
    ends: "ws ! 0 = w1" "ws ! length rest = w'" and
    each: "\<forall>i<length rest.
        GetProviderResourceDocs x c (rest ! i) (ws ! i) = (Inr (contents ! i), ws ! Suc i)" and
    docs: "docs = (acc @ content) @ concat contents"
    by blast
  have step: "\<forall>i<length (pageID # rest).
      GetProviderResourceDocs x c ((pageID # rest) ! i) ((w # ws) ! i)
        = (Inr ((content # contents) ! i), (w # ws) ! Suc i)"
  proof (intro allI impI)
    fix i assume "i < length (pageID # rest)"
    then show "GetProviderResourceDocs x c ((pageID # rest) ! i) ((w # ws) ! i)
        = (Inr ((content # contents) ! i), (w # ws) ! Suc i)"
      using first each ends(1) by (cases i) auto
  qed
  show ?case
    using len ends step docs
    by (intro exI [of _ "content # contents"] exI [of _ "w # ws"]) simp
qed

lemma GetProviderOverviewDocs_trace:
  assumes "GetProviderOverviewDocs x c providerVersionID w = (Inr docs, w')"
  shows "\<exists>listing w1 pages contents ws.
     SendRegistryCall x c ''GET''
        (''provider-docs?filter[provider-version]='' @ providerVersionID
           @ ''&filter[category]=overview&filter[slug]=index'') [''v2''] w = (Inr listing, w1) \<and>
     unmarshalProviderOverview x listing = Inr pages \<and>
     length contents = length pages \<and> length ws = Suc (length pages) \<and>
     ws ! 0 = w1 \<and> ws ! length pages = w' \<and>
     (\<forall>i<length pages.
        GetProviderResourceDocs x c (pages ! i) (ws ! i) = (Inr (contents ! i), ws ! Suc i)) \<and>
     docs = concat contents"
proof -
  from assms obtain listing w1 pages where
    l: "SendRegistryCall x c ''GET''
        (''provider-docs?filter[provider-version]='' @ providerVersionID
           @ ''&filter[category]=overview&filter[slug]=index'') [''v2''] w = (Inr listing, w1)" and
    p: "unmarshalProviderOverview x listing = Inr pages" and
    o: "overviewPages x c pages [] w1 = (Inr docs, w')"
    by (auto simp: GetProviderOverviewDocs_def Let_def split: prod.splits sum.splits)
  from overviewPages_trace [OF o] l p show ?thesis
    by auto
qed


lemma helper_trace:
  assumes "providerResourceTemplateHelper x c requestURI w = (Inr docs, w')"
  shows "\<exists>namespace name version resolved wr providerVersionID w2.
      ExtractProviderNameAndVersion requestURI = Inr (namespace, name, version) \<and>
      (if version = [] \<or> version = ''latest'' \<or> \<not> IsValidProviderVersionFormat version
         then GetLatestProviderVersion x c namespace name w = (Inr resolved, wr)
         else resolved = version \<and> wr = w) \<and>
      GetProviderVersionID x c namespace name resolved wr = (Inr providerVersionID, w2) \<and>
      GetProviderOverviewDocs x c providerVersionID w2 = (Inr docs, w')"
proof -
  from assms obtain namespace name version where
    e: "ExtractProviderNameAndVersion requestURI = Inr (namespace, name, version)"
    by (auto simp: providerResourceTemplateHelper_def split: sum.splits)
  from assms e obtain resolved wr where
    r: "if version = [] \<or> version = ''latest'' \<or> \<not> IsValidProviderVersionFormat version
         then GetLatestProviderVersion x c namespace name w = (Inr resolved, wr)
         else resolved = version \<and> wr = w" and
    f: "fetchOverviewDocs x c namespace name resolved wr = (Inr docs, w')"
    by (auto simp: providerResourceTemplateHelper_def split: prod.splits sum.splits if_splits)
  from f obtain providerVersionID w2 where
    "GetProviderVersionID x c namespace name resolved wr = (Inr providerVersionID, w2)"
    "GetProviderOverviewDocs x c providerVersionID w2 = (Inr docs, w')"
    by (auto simp: fetchOverviewDocs_def split: prod.splits sum.splits)
  with e r show ?thesis
    by blast
qed

text \<open>
  C8, amended.  For every successful read of the provider resource template, the returned
  value is a sequence of exactly one \<open>TextResourceContents\<close> chunk, tagged with the MIME
  type \<open>text/markdown\<close>, whose text is the concatenation, in the order of the overview
  listing, of the contents of the overview documents fetched from the registry.  The
  listing is the one that the registry returns for the provider-version ID of the version
  read (the version of the URI, or the latest version resolved for it), decoded into its
  pages; the documents are fetched page after page, each from the state that the previous
  fetch has left, and the read ends in the state left by the last one.
\<close>

theorem C8_single_markdown_chunk:
  assumes "providerResourceTemplate x resourceURI ctx requestURI w = (Inr resourceContents, w')"
  shows "\<exists>httpClient w1 namespace name version resolved wr providerVersionID w2 listing w3
            pages contents ws chunk.
      GetHttpClientFromContext ctx w = (Inr httpClient, w1) \<and>
      ExtractProviderNameAndVersion requestURI = Inr (namespace, name, version) \<and>
      (if version = [] \<or> version = ''latest'' \<or> \<not> IsValidProviderVersionFormat version
         then GetLatestProviderVersion x httpClient namespace name w1 = (Inr resolved, wr)
         else resolved = version \<and> wr = w1) \<and>
      GetProviderVersionID x httpClient namespace name resolved wr = (Inr providerVersionID, w2) \<and>
      SendRegistryCall x httpClient ''GET''
        (''provider-docs?filter[provider-version]='' @ providerVersionID
           @ ''&filter[category]=overview&filter[slug]=index'') [''v2''] w2 = (Inr listing, w3) \<and>
      unmarshalProviderOverview x listing = Inr pages \<and>
      length contents = length pages \<and> length ws = Suc (length pages) \<and>
      ws ! 0 = w3 \<and> ws ! length pages = w' \<and>
      (\<forall>i<length pages.
         GetProviderResourceDocs x httpClient (pages ! i) (ws ! i)
           = (Inr (contents ! i), ws ! Suc i)) \<and>
      resourceContents = [chunk] \<and> MIMEType chunk = ''text/markdown'' \<and>
      Text chunk = concat contents"
proof -
  from assms obtain httpClient w1 docs where
    g: "GetHttpClientFromContext ctx w = (Inr httpClient, w1)" and
    h: "providerResourceTemplateHelper x httpClient requestURI w1 = (Inr docs, w')" and
    r: "resourceContents = [\<lparr>MIMEType = ''text/markdown'', URI = resourceURI, Text = docs\<rparr>]"
    by (auto simp: providerResourceTemplate_def split: prod.splits sum.splits)
  from helper_trace [OF h] obtain namespace name version resolved wr providerVersionID w2 where
    e: "ExtractProviderNameAndVersion requestURI = Inr (namespace, name, version)" and
    v: "if version = [] \<or> version = ''latest'' \<or> \<not> IsValidProviderVersionFormat version
         then GetLatestProviderVersion x httpClient namespace name w1 = (Inr resolved, wr)
         else resolved = version \<and> wr = w1" and
    i: "GetProviderVersionID x httpClient namespace name resolved wr = (Inr providerVersionID, w2)" and
    o: "GetProviderOverviewDocs x httpClient providerVersionID w2 = (Inr docs, w')"
    by blast
  from GetProviderOverviewDocs_trace [OF o] obtain listing w3 pages contents ws where
    t: "SendRegistryCall x httpClient ''GET''
        (''provider-docs?filter[provider-version]='' @ providerVersionID
           @ ''&filter[category]=overview&filter[slug]=index'') [''v2''] w2 = (Inr listing, w3)"
       "unmarshalProviderOverview x listing = Inr pages"
       "length contents = length pages" "length ws = Suc (length pages)"
       "ws ! 0 = w3" "ws ! length pages = w'"
       "\<forall>i<length pages.
         GetProviderResourceDocs x httpClient (pages ! i) (ws ! i)
           = (Inr (contents ! i), ws ! Suc i)"
       "docs = concat contents"
    by blast
  have c: "MIMEType \<lparr>MIMEType = ''text/markdown'', URI = resourceURI, Text = docs\<rparr> = ''text/markdown''"
          "Text \<lparr>MIMEType = ''text/markdown'', URI = resourceURI, Text = docs\<rparr> = concat contents"
    using t(8) by simp_all
  from g e v i t(1-7) r c show ?thesis
    by blast
qed


theorem C8_single_markdown_chunk_witness:
  "providerResourceTemplate exampleRegistry providerTemplateURI
      \<lparr>Session = Some ''s1'', Values = Map.empty\<rparr> ''registry://providers/hashicorp/name/aws/version/5.0.0'' emptyWorld
    = (Inr [\<lparr>MIMEType = ''text/markdown'', URI = providerTemplateURI, Text = ''# AWS Provider# Guides''\<rparr>],
       \<lparr>activeHttpClients = [''s1'' \<mapsto> createHTTPClient False],
        wire = map (\<lambda>url. \<lparr>reqMethod = ''GET'', reqURL = url, reqUserAgent = ''terraform-mcp-server/dev''\<rparr>)
          [''https://registry.terraform.io/v2/providers/hashicorp/aws?include=provider-versions'',
           ''https://registry.terraform.io/v2/provider-docs?filter[provider-version]=70800&filter[category]=overview&filter[slug]=index'',
           ''https://registry.terraform.io/v2/provider-docs/8862001'',
           ''https://registry.terraform.io/v2/provider-docs/8862002'']\<rparr>)
   \<and> (\<exists>httpClient w1 namespace name version resolved wr providerVersionID w2 listing w3
            pages contents ws chunk.
      GetHttpClientFromContext \<lparr>Session = Some ''s1'', Values = Map.empty\<rparr> emptyWorld = (Inr httpClient, w1) \<and>
      ExtractProviderNameAndVersion ''registry://providers/hashicorp/name/aws/version/5.0.0'' = Inr (namespace, name, version) \<and>
      (if version = [] \<or> version = ''latest'' \<or> \<not> IsValidProviderVersionFormat version
         then GetLatestProviderVersion exampleRegistry httpClient namespace name w1 = (Inr resolved, wr)
         else resolved = version \<and> wr = w1) \<and>
      GetProviderVersionID exampleRegistry httpClient namespace name resolved wr
        = (Inr providerVersionID, w2) \<and>
      SendRegistryCall exampleRegistry httpClient ''GET''
        (''provider-docs?filter[provider-version]='' @ providerVersionID
           @ ''&filter[category]=overview&filter[slug]=index'') [''v2''] w2 = (Inr listing, w3) \<and>
      unmarshalProviderOverview exampleRegistry listing = Inr pages \<and>
      length contents = length pages \<and> length ws = Suc (length pages) \<and>
      ws ! 0 = w3 \<and>
      ws ! length pages = \<lparr>activeHttpClients = [''s1'' \<mapsto> createHTTPClient False],
        wire = map (\<lambda>url. \<lparr>reqMethod = ''GET'', reqURL = url, reqUserAgent = ''terraform-mcp-server/dev''\<rparr>)
          [''https://registry.terraform.io/v2/providers/hashicorp/aws?include=provider-versions'',
           ''https://registry.terraform.io/v2/provider-docs?filter[provider-version]=70800&filter[category]=overview&filter[slug]=index'',
           ''https://registry.terraform.io/v2/provider-docs/8862001'',
           ''https://registry.terraform.io/v2/provider-docs/8862002'']\<rparr> \<and>
      (\<forall>i<length pages.
         GetProviderResourceDocs exampleRegistry httpClient (pages ! i) (ws ! i)
           = (Inr (contents ! i), ws ! Suc i)) \<and>
      [\<lparr>MIMEType = ''text/markdown'', URI = providerTemplateURI, Text = ''# AWS Provider# Guides''\<rparr>] = [chunk] \<and> MIMEType chunk = ''text/markdown'' \<and>
      Text chunk = concat contents)"
proof -
  have e: "ExtractProviderNameAndVersion ''registry://providers/hashicorp/name/aws/version/5.0.0''
     = Inr (''hashicorp'', ''aws'', ''5.0.0'')"
    by code_simp
  have v: "IsValidProviderVersionFormat ''5.0.0''"
    by code_simp
  have run: "providerResourceTemplate exampleRegistry providerTemplateURI
      \<lparr>Session = Some ''s1'', Values = Map.empty\<rparr> ''registry://providers/hashicorp/name/aws/version/5.0.0'' emptyWorld
    = (Inr [\<lparr>MIMEType = ''text/markdown'', URI = providerTemplateURI, Text = ''# AWS Provider# Guides''\<rparr>],
       \<lparr>activeHttpClients = [''s1'' \<mapsto> createHTTPClient False],
        wire = map (\<lambda>url. \<lparr>reqMethod = ''GET'', reqURL = url, reqUserAgent = ''terraform-mcp-server/dev''\<rparr>)
          [''https://registry.terraform.io/v2/providers/hashicorp/aws?include=provider-versions'',
           ''https://registry.terraform.io/v2/provider-docs?filter[provider-version]=70800&filter[category]=overview&filter[slug]=index'',
           ''https://registry.terraform.io/v2/provider-docs/8862001'',
           ''https://registry.terraform.io/v2/provider-docs/8862002'']\<rparr>)"
    by (simp add: providerResourceTemplate_def GetHttpClientFromContext_def GetHttpClient_def
          CreateHttpClientForSession_def NewHttpClient_def parseTerraformSkipTLSVerify_def
          providerResourceTemplateHelper_def e v
          fetchOverviewDocs_def GetProviderVersionID_def
          GetProviderOverviewDocs_def GetProviderResourceDocs_def SendRegistryCall_def
          exampleRegistry_def exampleResponse_def emptyWorld_def DefaultPublicRegistryURL_def
          StatusOKInt_def Let_def)
  from C8_single_markdown_chunk [OF run] run show ?thesis
    by (intro conjI)
qed

end
